theory Spec2Isabelle
  imports Complex_Main
begin

section \<open>Strings of the interpreter\<close>

text \<open>
  A Python \<open>str\<close> is modelled as a \<open>string\<close> whose characters are the code points
  U+0000 to U+00FF (one \<open>char\<close> per code point). The classification of characters below
  follows the interpreter on that range. Text with code points above U+00FF is outside the
  model.
\<close>

definition isspace_char :: "char \<Rightarrow> bool" where
  "isspace_char c =
     (let n = (of_char c :: nat)
      in (9 \<le> n \<and> n \<le> 13) \<or> (28 \<le> n \<and> n \<le> 32) \<or> n = 133 \<or> n = 160)"

definition strip :: "string \<Rightarrow> string" where
  \<comment> \<open>\<open>str.strip()\<close>: whitespace removed at both ends\<close>
  "strip s = rev (dropWhile isspace_char (rev (dropWhile isspace_char s)))"

definition lower_char :: "char \<Rightarrow> char" where
  "lower_char c =
     (let n = (of_char c :: nat)
      in if (65 \<le> n \<and> n \<le> 90) \<or> (192 \<le> n \<and> n \<le> 222 \<and> n \<noteq> 215)
         then char_of (n + 32) else c)"

definition lower :: "string \<Rightarrow> string" where
  \<comment> \<open>\<open>str.lower()\<close>\<close>
  "lower s = map lower_char s"

definition isdecimal_char :: "char \<Rightarrow> bool" where
  "isdecimal_char c = (let n = (of_char c :: nat) in 48 \<le> n \<and> n \<le> 57)"

definition isdigit_char :: "char \<Rightarrow> bool" where
  \<comment> \<open>the decimal digits and the superscripts U+00B2, U+00B3, U+00B9\<close>
  "isdigit_char c =
     (let n = (of_char c :: nat) in (48 \<le> n \<and> n \<le> 57) \<or> n = 178 \<or> n = 179 \<or> n = 185)"

definition isdigit :: "string \<Rightarrow> bool" where
  \<comment> \<open>\<open>str.isdigit()\<close>: at least one character, and all of them digits\<close>
  "isdigit s = (s \<noteq> [] \<and> list_all isdigit_char s)"

datatype exn = Exception string | KeyboardInterrupt | SystemExit

text \<open>
  \<open>Exception m\<close> stands for an instance of any subclass of Python's \<open>Exception\<close>, with
  \<open>m\<close> the text of \<open>str(e)\<close>. \<open>KeyboardInterrupt\<close> and \<open>SystemExit\<close> derive from
  \<open>BaseException\<close> only.
\<close>

fun is_Exception :: "exn \<Rightarrow> bool" where
  "is_Exception (Exception m) = True"
| "is_Exception KeyboardInterrupt = False"
| "is_Exception SystemExit = False"

definition digit_value :: "char \<Rightarrow> int" where
  "digit_value c = int (of_char c) - 48"

definition digit_char :: "nat \<Rightarrow> char" where
  "digit_char n = char_of (48 + n)"

function str_nat :: "nat \<Rightarrow> string" where
  "str_nat n = (if n < 10 then [digit_char n] else str_nat (n div 10) @ [digit_char (n mod 10)])"
  by pat_completeness auto
termination
  by (relation "measure id") auto

declare str_nat.simps [simp del]

definition INT_MAX_STR_DIGITS :: nat where
  \<comment> \<open>the interpreter's default limit on the number of digits of a string that
      \<open>int\<close> converts (\<open>sys.get_int_max_str_digits()\<close>)\<close>
  "INT_MAX_STR_DIGITS = 4300"

definition py_int :: "string \<Rightarrow> exn + int" where
  \<comment> \<open>\<open>int(s)\<close> on a string that passed \<open>isdigit\<close>: a ValueError unless every
      character is a decimal digit, and a ValueError when there are more digits than the
      limit\<close>
  "py_int s =
     (if s = [] \<or> \<not> list_all isdecimal_char s
      then Inl (Exception (''invalid literal for int() with base 10: '' @
                           [CHR 0x27] @ s @ [CHR 0x27]))
      else if INT_MAX_STR_DIGITS < length s
      then Inl (Exception (''Exceeds the limit (4300 digits) for integer string conversion: value has '' @
                           str_nat (length s) @
                           '' digits; use sys.set_int_max_str_digits() to increase the limit''))
      else Inr (foldl (\<lambda>acc c. 10 * acc + digit_value c) 0 s))"

definition zfill :: "nat \<Rightarrow> string \<Rightarrow> string" where
  "zfill k s = replicate (k - length s) (CHR ''0'') @ s"

section \<open>The prompt set and the selection loop\<close>

definition JOURNAL_PROMPTS :: "string list" where
  "JOURNAL_PROMPTS =
     [''What went well today?'',
      ''What could have gone better?'',
      ''What am I grateful for today?'',
      ''What did I learn today?'',
      ''What's one thing I want to focus on tomorrow?'',
      ''What was the best part of my day?'',
      ''What challenged me today?'',
      ''How did I take care of myself today?'',
      ''What's something I accomplished today?'',
      ''What's something I'm looking forward to?'']"

text \<open>
  What one call of \<open>input()\<close> gives: a line (without its newline), or an exception
  (Ctrl-C raises \<open>KeyboardInterrupt\<close>). A script that is used up is the end of the
  input stream, where \<open>input()\<close> raises \<open>EOFError\<close>.
\<close>

datatype input_event = Line string | Raises exn

definition prompt_text :: "nat \<Rightarrow> string" where
  "prompt_text count = ''Prompt '' @ str_nat count @ '' (or 'done' to finish): ''"

definition EOFError :: exn where
  "EOFError = Exception ''EOF when reading a line''"

text \<open>
  The \<open>while count <= 3\<close> loop of \<open>create_journal_entry\<close> (lines 108 to 122), on
  the lines still to be read and the text printed so far. Each call of \<open>input\<close> prints its
  prompt first.
\<close>

fun selection_loop ::
  "nat \<Rightarrow> string list \<Rightarrow> input_event list \<Rightarrow> string list \<Rightarrow> (exn + string list) \<times> string list"
where
  "selection_loop count selected [] printed =
     (if count \<le> 3 then (Inl EOFError, printed @ [prompt_text count]) else (Inr selected, printed))"
| "selection_loop count selected (Raises e # rest) printed =
     (if count \<le> 3 then (Inl e, printed @ [prompt_text count]) else (Inr selected, printed))"
| "selection_loop count selected (Line l # rest) printed =
     (if count \<le> 3 then
        (let user_input = strip l; printed' = printed @ [prompt_text count] in
         if lower user_input = ''done'' then (Inr selected, printed')
         else if isdigit user_input then
           (case py_int user_input of
              Inl e \<Rightarrow> (Inl e, printed')
            | Inr n \<Rightarrow>
                if 1 \<le> n \<and> n \<le> int (length JOURNAL_PROMPTS)
                then selection_loop (count + 1)
                       (selected @ [JOURNAL_PROMPTS ! nat (n - 1)]) rest printed'
                else if user_input \<noteq> []
                then selection_loop (count + 1) (selected @ [user_input]) rest printed'
                else selection_loop count selected rest printed')
         else if user_input \<noteq> []
         then selection_loop (count + 1) (selected @ [user_input]) rest printed'
         else selection_loop count selected rest printed')
      else (Inr selected, printed))"

declare selection_loop.simps [simp del]

section \<open>Dates and paths\<close>

text \<open>
  The value of \<open>datetime.datetime.now()\<close>: a naive local date and time. The interpreter
  keeps the fields in the ranges of \<open>valid_datetime\<close>. Where the local clock is set
  back and a wall-clock time occurs twice, \<open>fold\<close> tells the second occurrence from the
  first (the attribute is 1 or 0); \<open>replace\<close> keeps it and \<open>timestamp\<close> reads it.
\<close>

record datetime =
  year :: nat
  month :: nat
  day :: nat
  hour :: nat
  minute :: nat
  second :: nat
  microsecond :: nat
  fold :: bool

definition valid_datetime :: "datetime \<Rightarrow> bool" where
  "valid_datetime d =
     (1 \<le> year d \<and> year d \<le> 9999 \<and> 1 \<le> month d \<and> month d \<le> 12 \<and>
      1 \<le> day d \<and> day d \<le> 31 \<and> hour d < 24 \<and> minute d < 60 \<and> second d < 60 \<and>
      microsecond d < 1000000)"

definition MONTH_NAMES :: "string list" where
  "MONTH_NAMES =
     [''January'', ''February'', ''March'', ''April'', ''May'', ''June'', ''July'',
      ''August'', ''September'', ''October'', ''November'', ''December'']"

text \<open>
  The \<open>strftime\<close> directives the program uses, in the C locale and as the interpreter
  gives them on the C library of the platform: \<open>%Y\<close> is the year in decimal, not padded
  (so it has four digits from the year 1000 on, and fewer before), \<open>%m\<close>, \<open>%d\<close>,
  \<open>%H\<close>, \<open>%M\<close> and \<open>%S\<close> are zero-padded to two digits, \<open>%B\<close> is the full name
  of the month.
\<close>

definition fmt_Y :: "datetime \<Rightarrow> string" where
  "fmt_Y d = str_nat (year d)"

definition fmt_m :: "datetime \<Rightarrow> string" where
  "fmt_m d = zfill 2 (str_nat (month d))"

definition fmt_d :: "datetime \<Rightarrow> string" where
  "fmt_d d = zfill 2 (str_nat (day d))"

definition fmt_H :: "datetime \<Rightarrow> string" where
  "fmt_H d = zfill 2 (str_nat (hour d))"

definition fmt_M :: "datetime \<Rightarrow> string" where
  "fmt_M d = zfill 2 (str_nat (minute d))"

definition fmt_S :: "datetime \<Rightarrow> string" where
  "fmt_S d = zfill 2 (str_nat (second d))"

definition fmt_B :: "datetime \<Rightarrow> string" where
  "fmt_B d = MONTH_NAMES ! (month d - 1)"

definition date_str :: "datetime \<Rightarrow> string" where
  \<comment> \<open>\<open>strftime('%Y-%m-%d')\<close>\<close>
  "date_str today = fmt_Y today @ ''-'' @ fmt_m today @ ''-'' @ fmt_d today"

definition year_str :: "datetime \<Rightarrow> string" where
  "year_str today = fmt_Y today"

definition month_name :: "datetime \<Rightarrow> string" where
  "month_name today = lower (fmt_B today)"

definition month_year :: "datetime \<Rightarrow> string" where
  "month_year today = month_name today @ ''-'' @ year_str today"

definition day_number :: "datetime \<Rightarrow> string" where
  "day_number today = fmt_d today"

definition datetime_str :: "datetime \<Rightarrow> string" where
  \<comment> \<open>\<open>strftime('%Y-%m-%d %H:%M:%S')\<close>\<close>
  "datetime_str d = date_str d @ '' '' @ fmt_H d @ '':'' @ fmt_M d @ '':'' @ fmt_S d"

definition midnight :: "datetime \<Rightarrow> datetime" where
  \<comment> \<open>\<open>today.replace(hour=0, minute=0, second=0, microsecond=0)\<close>\<close>
  "midnight today = today\<lparr>hour := 0, minute := 0, second := 0, microsecond := 0\<rparr>"

definition path_join :: "string \<Rightarrow> string \<Rightarrow> string" where
  \<comment> \<open>\<open>os.path.join\<close> of two components on POSIX\<close>
  "path_join a b =
     (if b \<noteq> [] \<and> hd b = CHR ''/'' then b
      else if a = [] \<or> last a = CHR ''/'' then a @ b
      else a @ ''/'' @ b)"

definition relative_to :: "string \<Rightarrow> string \<Rightarrow> exn + string" where
  \<comment> \<open>\<open>Path(p).relative_to(Path(base))\<close>, on normalised paths\<close>
  "relative_to p base =
     (let b = (if base = [] \<or> last base = CHR ''/'' then base else base @ ''/'')
      in if take (length b) p = b then Inr (drop (length b) p)
         else Inl (Exception (p @ '' is not in the subpath of '' @ base)))"

record config =
  REPO_PATH :: string
  GITHUB_TOKEN :: "string option"
  GITHUB_USERNAME :: "string option"
  GITHUB_EMAIL :: "string option"

definition journals_dir :: "config \<Rightarrow> string" where
  "journals_dir cfg = path_join (REPO_PATH cfg) ''journals''"

definition month_dir :: "config \<Rightarrow> datetime \<Rightarrow> string" where
  "month_dir cfg today = path_join (journals_dir cfg) (month_year today)"

definition day_dir :: "config \<Rightarrow> datetime \<Rightarrow> string" where
  "day_dir cfg today = path_join (month_dir cfg today) (day_number today)"

definition file_path :: "config \<Rightarrow> datetime \<Rightarrow> string" where
  "file_path cfg today = path_join (day_dir cfg today) (date_str today @ ''.md'')"

definition entry_relative_path :: "datetime \<Rightarrow> string" where
  \<comment> \<open>the components that lines 76 to 93 join to \<open>REPO_PATH\<close>: the entry path
      relative to the repository root (line 147)\<close>
  "entry_relative_path today =
     ''journals/'' @ month_year today @ ''/'' @ day_number today @ ''/'' @ date_str today @
     ''.md''"

section \<open>The world outside the program\<close>

text \<open>
  The file system below the repository: a path holds a directory or a file with its
  content, each with its last-modified time. Time stamps are the numbers the
  interpreter's floats denote; it compares them exactly.
\<close>

datatype node = Dir real | File string real

fun node_mtime :: "node \<Rightarrow> real" where
  "node_mtime (Dir t) = t"
| "node_mtime (File c t) = t"

text \<open>
  The state of the version-control repository at \<open>REPO_PATH\<close>, as far as the program
  uses it: configuration values, the staged tree, the commits (oldest first, each with its
  message and tree), the names of the remotes and the pushes made.
\<close>

record git_state =
  git_config :: "(string \<times> string) \<rightharpoonup> string option"
  index :: "string \<rightharpoonup> string"
  commits :: "(string \<times> (string \<rightharpoonup> string)) list"
  remotes :: "string list"
  pushes :: "(string \<times> string) list"

definition empty_repo :: git_state where
  "empty_repo =
     \<lparr>git_config = Map.empty, index = Map.empty, commits = [], remotes = [], pushes = []\<rparr>"

text \<open>The calls the program makes to the file system and to the version-control library.\<close>

datatype call =
    GitInit string
  | GitConfigWriter
  | GitSetValue string string "string option"
  | GitAdd string
  | GitCommit string
  | GitDiffStaged
  | GitRemotes
  | GitPush string string
  | GitOpen string
  | MakeDirs string
  | WriteFile string

datatype level = INFO | ERROR

record world =
  nodes :: "string \<rightharpoonup> node"
  git :: "git_state option"
  trace :: "call list"
  logged :: "(level \<times> string) list"
  out :: "string list"

text \<open>
  What the outside world answers during one run: the three readings of the clock (lines
  69, 129 and 155), the conversion of a local time to a time stamp (which depends on the
  time zone of the machine), the lines typed, the calls that fail and with which exception,
  the text \<open>git diff --staged\<close> prints, and the time the file system stamps on a path
  written in this run.
\<close>

record env =
  now_entry :: datetime
  now_footer :: datetime
  now_commit :: datetime
  local_timestamp :: "datetime \<Rightarrow> real"
  stdin :: "input_event list"
  fault :: "call \<Rightarrow> exn option"
  diff_staged :: string
  stamp :: "string \<Rightarrow> real"

datatype repo = Repo (working_dir: string)

type_synonym 'a io = "world \<Rightarrow> (exn + 'a) \<times> world"

definition ret :: "'a \<Rightarrow> 'a io" where
  "ret a w = (Inr a, w)"

definition seq :: "'a io \<Rightarrow> ('a \<Rightarrow> 'b io) \<Rightarrow> 'b io" where
  \<comment> \<open>one statement after another: an exception ends the sequence\<close>
  "seq m f w = (case m w of (Inl e, w') \<Rightarrow> (Inl e, w') | (Inr a, w') \<Rightarrow> f a w')"

definition try_except :: "'a io \<Rightarrow> (string \<Rightarrow> 'a io) \<Rightarrow> 'a io" where
  \<comment> \<open>\<open>try: m except Exception as e: h(str(e))\<close>\<close>
  "try_except m h w =
     (case m w of
        (Inl (Exception msg), w') \<Rightarrow> h msg w'
      | (Inl KeyboardInterrupt, w') \<Rightarrow> (Inl KeyboardInterrupt, w')
      | (Inl SystemExit, w') \<Rightarrow> (Inl SystemExit, w')
      | (Inr a, w') \<Rightarrow> (Inr a, w'))"

definition when_io :: "(world \<Rightarrow> bool) \<Rightarrow> unit io \<Rightarrow> unit io" where
  \<comment> \<open>an \<open>if\<close> without \<open>else\<close>\<close>
  "when_io c m w = (if c w then m w else (Inr (), w))"

definition external :: "env \<Rightarrow> call \<Rightarrow> 'a io \<Rightarrow> 'a io" where
  \<comment> \<open>a call to the outside: noted in the trace; it raises when the environment makes it
      fail, and has its effect otherwise\<close>
  "external e c body w =
     (let w' = w\<lparr>trace := trace w @ [c]\<rparr>
      in case fault e c of Some x \<Rightarrow> (Inl x, w') | None \<Rightarrow> body w')"

definition logger_info :: "string \<Rightarrow> unit io" where
  "logger_info msg w = (Inr (), w\<lparr>logged := logged w @ [(INFO, msg)]\<rparr>)"

definition logger_error :: "string \<Rightarrow> unit io" where
  "logger_error msg w = (Inr (), w\<lparr>logged := logged w @ [(ERROR, msg)]\<rparr>)"

definition print_lines :: "string list \<Rightarrow> unit io" where
  \<comment> \<open>successive calls of \<open>print\<close>\<close>
  "print_lines ls w = (Inr (), w\<lparr>out := out w @ ls\<rparr>)"

definition path_exists :: "world \<Rightarrow> string \<Rightarrow> bool" where
  "path_exists w p = (nodes w p \<noteq> None)"

definition isdir :: "world \<Rightarrow> string \<Rightarrow> bool" where
  "isdir w p = (case nodes w p of Some (Dir t) \<Rightarrow> True | _ \<Rightarrow> False)"

definition os_makedirs :: "env \<Rightarrow> string \<Rightarrow> unit io" where
  "os_makedirs e p =
     external e (MakeDirs p)
       (\<lambda>w. if path_exists w p then (Inl (Exception (''File exists: '' @ p)), w)
            else (Inr (), w\<lparr>nodes := (nodes w)(p \<mapsto> Dir (stamp e p))\<rparr>))"

definition write_file :: "env \<Rightarrow> string \<Rightarrow> string \<Rightarrow> unit io" where
  \<comment> \<open>\<open>with open(p, 'w') as f: f.write(content)\<close>\<close>
  "write_file e p content =
     external e (WriteFile p)
       (\<lambda>w. if isdir w p then (Inl (Exception (''Is a directory: '' @ p)), w)
            else (Inr (), w\<lparr>nodes := (nodes w)(p \<mapsto> File content (stamp e p))\<rparr>))"

definition with_repo :: "(git_state \<Rightarrow> git_state) \<Rightarrow> unit io" where
  "with_repo f w =
     (case git w of
        None \<Rightarrow> (Inl (Exception ''not a git repository''), w)
      | Some g \<Rightarrow> (Inr (), w\<lparr>git := Some (f g)\<rparr>))"

definition git_init :: "env \<Rightarrow> string \<Rightarrow> repo io" where
  \<comment> \<open>\<open>git.Repo.init(path)\<close>: a new, empty repository unless there is one already\<close>
  "git_init e path =
     external e (GitInit path)
       (\<lambda>w. (Inr (Repo path),
             w\<lparr>nodes := (if path_exists w (path_join path ''.git'') then nodes w
                          else (nodes w)(path_join path ''.git'' \<mapsto>
                                 Dir (stamp e (path_join path ''.git'')))),
               git := Some (case git w of None \<Rightarrow> empty_repo | Some g \<Rightarrow> g)\<rparr>))"

definition git_config_writer :: "env \<Rightarrow> unit io" where
  "git_config_writer e = external e GitConfigWriter (ret ())"

definition git_set_value :: "env \<Rightarrow> string \<Rightarrow> string \<Rightarrow> string option \<Rightarrow> unit io" where
  "git_set_value e sect key v =
     external e (GitSetValue sect key v)
       (with_repo (\<lambda>g. g\<lparr>git_config := (git_config g)((sect, key) \<mapsto> v)\<rparr>))"

definition git_add :: "env \<Rightarrow> repo \<Rightarrow> string \<Rightarrow> unit io" where
  \<comment> \<open>\<open>repo.git.add(path)\<close>: the file's content goes into the staged tree; staging a
      directory is not followed into the files below it\<close>
  "git_add e r path =
     external e (GitAdd path)
       (\<lambda>w. case nodes w (path_join (working_dir r) path) of
               None \<Rightarrow> (Inl (Exception (''pathspec did not match any files: '' @ path)), w)
             | Some (Dir t) \<Rightarrow> with_repo (\<lambda>g. g) w
             | Some (File content t) \<Rightarrow>
                 with_repo (\<lambda>g. g\<lparr>index := (index g)(path \<mapsto> content)\<rparr>) w)"

definition git_commit :: "env \<Rightarrow> string \<Rightarrow> unit io" where
  \<comment> \<open>\<open>repo.git.commit('-m', msg)\<close>\<close>
  "git_commit e msg =
     external e (GitCommit msg)
       (with_repo (\<lambda>g. g\<lparr>commits := commits g @ [(msg, index g)]\<rparr>))"

definition git_diff_staged :: "env \<Rightarrow> string io" where
  \<comment> \<open>\<open>repo.git.diff('--staged')\<close>\<close>
  "git_diff_staged e = external e GitDiffStaged (ret (diff_staged e))"

definition git_remotes :: "env \<Rightarrow> string list io" where
  \<comment> \<open>\<open>[remote.name for remote in repo.remotes]\<close>\<close>
  "git_remotes e =
     external e GitRemotes
       (\<lambda>w. case git w of
               None \<Rightarrow> (Inl (Exception ''not a git repository''), w)
             | Some g \<Rightarrow> (Inr (remotes g), w))"

definition git_push :: "env \<Rightarrow> string \<Rightarrow> string \<Rightarrow> unit io" where
  "git_push e remote branch =
     external e (GitPush remote branch)
       (with_repo (\<lambda>g. g\<lparr>pushes := pushes g @ [(remote, branch)]\<rparr>))"

definition git_open :: "env \<Rightarrow> string \<Rightarrow> repo io" where
  \<comment> \<open>\<open>git.Repo(path)\<close>: fails where there is no valid repository\<close>
  "git_open e path =
     external e (GitOpen path)
       (\<lambda>w. if git w \<noteq> None then (Inr (Repo path), w)
            else (Inl (Exception (''InvalidGitRepositoryError: '' @ path)), w))"

section \<open>The program\<close>

definition README_TEXT :: string where
  "README_TEXT =
     ''# Daily Journal\<newline>\<newline>This repository contains my daily journal entries, automatically committed by my journal bot.''"

text \<open>The body of the \<open>try\<close> block of \<open>setup_repo\<close> (lines 46 to 62).\<close>

definition setup_repo_body :: "config \<Rightarrow> env \<Rightarrow> repo io" where
  "setup_repo_body cfg e =
     seq (when_io (\<lambda>w. \<not> isdir w (path_join (REPO_PATH cfg) ''.git''))
            (seq (logger_info ''Initializing git repository...'') (\<lambda>_.
             seq (git_init e (REPO_PATH cfg)) (\<lambda>repo.
             seq (git_config_writer e) (\<lambda>_.
             seq (git_set_value e ''user'' ''name'' (GITHUB_USERNAME cfg)) (\<lambda>_.
             seq (git_set_value e ''user'' ''email'' (GITHUB_EMAIL cfg)) (\<lambda>_.
             when_io (\<lambda>w. \<not> path_exists w (path_join (REPO_PATH cfg) ''README.md''))
               (seq (write_file e (path_join (REPO_PATH cfg) ''README.md'') README_TEXT) (\<lambda>_.
                seq (git_add e repo ''README.md'') (\<lambda>_.
                seq (git_commit e ''Initial commit: Add README'') (\<lambda>_.
                logger_info ''Created README and made initial commit'')))))))))))
       (\<lambda>_. git_open e (REPO_PATH cfg))"

definition setup_repo :: "config \<Rightarrow> env \<Rightarrow> repo option io" where
  "setup_repo cfg e =
     try_except (seq (setup_repo_body cfg e) (\<lambda>r. ret (Some r)))
       (\<lambda>msg. seq (logger_error (''Error setting up repository: '' @ msg)) (\<lambda>_. ret None))"

definition ensure_dir :: "env \<Rightarrow> string \<Rightarrow> string \<Rightarrow> unit io" where
  \<comment> \<open>lines 77 to 79, 83 to 85 and 89 to 91, which differ in the word logged\<close>
  "ensure_dir e kind d =
     when_io (\<lambda>w. \<not> path_exists w d)
       (seq (os_makedirs e d) (\<lambda>_. logger_info (''Created '' @ kind @ '' directory at '' @ d)))"

definition menu_lines :: "string list" where
  \<comment> \<open>the lines printed before the loop (lines 100 to 106)\<close>
  "menu_lines =
     [''\<newline>===== Journal Entry Prompts ====='',
      ''You can choose from the following prompts or enter your own:''] @
     map (\<lambda>(i, prompt). str_nat i @ ''. '' @ prompt)
       (zip [1 ..< Suc (length JOURNAL_PROMPTS)] JOURNAL_PROMPTS) @
     [''\<newline>Enter up to 3 prompt numbers or type your own prompts.'',
      ''Enter 'done' when finished.'']"

definition read_selection :: "env \<Rightarrow> string list io" where
  "read_selection e w =
     (case selection_loop 1 [] (stdin e) (out w) of (r, printed) \<Rightarrow> (r, w\<lparr>out := printed\<rparr>))"

definition entry_content :: "datetime \<Rightarrow> string list \<Rightarrow> datetime \<Rightarrow> string" where
  \<comment> \<open>lines 124 to 129\<close>
  "entry_content today selected_prompts footer_now =
     ''# Journal Entry: '' @ date_str today @ ''\<newline>\<newline>'' @
     concat (map (\<lambda>prompt. ''## '' @ prompt @ ''\<newline>\<newline>_Write your thoughts here..._\<newline>\<newline>'')
               selected_prompts) @
     ''\<newline>Created automatically by Journal Bot on '' @ datetime_str footer_now"

definition entry_is_current :: "env \<Rightarrow> world \<Rightarrow> string \<Rightarrow> datetime \<Rightarrow> bool" where
  \<comment> \<open>the condition of line 95\<close>
  "entry_is_current e w p today =
     (case nodes w p of
        None \<Rightarrow> False
      | Some n \<Rightarrow> local_timestamp e (midnight today) \<le> node_mtime n)"

definition create_journal_entry :: "config \<Rightarrow> env \<Rightarrow> string io" where
  "create_journal_entry cfg e =
     (let today = now_entry e in
      seq (ensure_dir e ''journals'' (journals_dir cfg)) (\<lambda>_.
      seq (ensure_dir e ''month'' (month_dir cfg today)) (\<lambda>_.
      seq (ensure_dir e ''day'' (day_dir cfg today)) (\<lambda>_.
      (\<lambda>w. if entry_is_current e w (file_path cfg today) today
           then seq (logger_info (''Journal entry for '' @ date_str today @
                                   '' already exists. Skipping creation.''))
                  (\<lambda>_. ret (file_path cfg today)) w
           else seq (print_lines menu_lines) (\<lambda>_.
                seq (read_selection e) (\<lambda>selected_prompts.
                seq (write_file e (file_path cfg today)
                       (entry_content today selected_prompts (now_footer e))) (\<lambda>_.
                seq (logger_info (''Created journal entry: '' @ file_path cfg today)) (\<lambda>_.
                ret (file_path cfg today))))) w)))))"

text \<open>
  Lines 146 to 168 of \<open>commit_to_github\<close>: what the specification calls the commit
  publisher, on the repository handle and the entry path.
\<close>

definition publish :: "env \<Rightarrow> repo \<Rightarrow> string \<Rightarrow> bool io" where
  "publish e repo entry_path =
     seq (\<lambda>w. (relative_to entry_path (working_dir repo), w)) (\<lambda>relative_path.
     seq (git_add e repo relative_path) (\<lambda>_.
     seq (git_diff_staged e) (\<lambda>d.
     if d = [] then seq (logger_info ''No changes to commit'') (\<lambda>_. ret False)
     else
       (let today = date_str (now_commit e);
            commit_message = ''Add journal entry for '' @ today in
        seq (git_commit e commit_message) (\<lambda>_.
        seq (git_remotes e) (\<lambda>names.
        seq (if ''origin'' \<in> set names
             then seq (logger_info ''Pushing changes to remote repository...'')
                    (\<lambda>_. git_push e ''origin'' ''main'')
             else seq (logger_info ''No remote repository configured. Skipping push.'')
                    (\<lambda>_. logger_info
                       ''To push manually, set up a remote repository and run: git push -u origin main''))
          (\<lambda>_.
        seq (logger_info (''Successfully committed journal entry for '' @ today)) (\<lambda>_.
        ret True))))))))"

definition commit_to_github_body :: "config \<Rightarrow> env \<Rightarrow> bool io" where
  "commit_to_github_body cfg e =
     seq (setup_repo cfg e) (\<lambda>r.
     case r of
       None \<Rightarrow> ret False
     | Some repo \<Rightarrow>
         seq (create_journal_entry cfg e) (\<lambda>entry_path. publish e repo entry_path))"

definition commit_to_github :: "config \<Rightarrow> env \<Rightarrow> bool io" where
  "commit_to_github cfg e =
     try_except (commit_to_github_body cfg e)
       (\<lambda>msg. seq (logger_error (''Error committing to GitHub: '' @ msg)) (\<lambda>_. ret False))"

definition run_journal_bot :: "config \<Rightarrow> env \<Rightarrow> unit io" where
  "run_journal_bot cfg e =
     seq (logger_info ''Running journal bot...'') (\<lambda>_.
     seq (commit_to_github cfg e) (\<lambda>success.
     if success then logger_info ''Journal bot completed successfully!''
     else logger_error ''Journal bot failed to complete.''))"

section \<open>Notions of the specification and example runs\<close>

definition same_calendar_date :: "datetime \<Rightarrow> datetime \<Rightarrow> bool" where
  "same_calendar_date a b = (year a = year b \<and> month a = month b \<and> day a = day b)"

definition blank :: "input_event \<Rightarrow> bool" where
  \<comment> \<open>a line that is empty once stripped\<close>
  "blank ev = (case ev of Line l \<Rightarrow> strip l = [] | Raises x \<Rightarrow> False)"

definition commits_of :: "world \<Rightarrow> (string \<times> (string \<rightharpoonup> string)) list" where
  \<comment> \<open>the commits of the repository, none when there is no repository\<close>
  "commits_of w = (case git w of None \<Rightarrow> [] | Some g \<Rightarrow> commits g)"

definition pushes_of :: "world \<Rightarrow> (string \<times> string) list" where
  "pushes_of w = (case git w of None \<Rightarrow> [] | Some g \<Rightarrow> pushes g)"

definition remotes_of :: "world \<Rightarrow> string list" where
  "remotes_of w = (case git w of None \<Rightarrow> [] | Some g \<Rightarrow> remotes g)"

definition config_of :: "world \<Rightarrow> string \<times> string \<Rightarrow> string option option" where
  "config_of w k = (case git w of None \<Rightarrow> None | Some g \<Rightarrow> git_config g k)"

text \<open>An example run: the fifth of March 2024, in a directory without any repository.\<close>

definition example_config :: config where
  "example_config =
     \<lparr>REPO_PATH = ''/home/u/daily-journal'', GITHUB_TOKEN = None,
      GITHUB_USERNAME = Some ''u'', GITHUB_EMAIL = Some ''u@example.org''\<rparr>"

definition example_today :: datetime where
  "example_today =
     \<lparr>year = 2024, month = 3, day = 5, hour = 21, minute = 7, second = 9, microsecond = 0,
      fold = False\<rparr>"

definition example_env :: env where
  "example_env =
     \<lparr>now_entry = example_today, now_footer = example_today, now_commit = example_today,
      local_timestamp = (\<lambda>d. real (86400 * day d + 3600 * hour d + 60 * minute d + second d)),
      stdin = [Line ''1'', Line ''3'', Line ''done''],
      fault = (\<lambda>c. None),
      diff_staged = ''diff --git a/journals/march-2024/05/2024-03-05.md'',
      stamp = (\<lambda>p. 507629)\<rparr>"

definition example_world :: world where
  "example_world =
     \<lparr>nodes = [''/home/u/daily-journal'' \<mapsto> Dir 0], git = None, trace = [], logged = [],
      out = []\<rparr>"

definition example_env_later :: env where
  \<comment> \<open>a second run, later on the same day, with nothing typed\<close>
  "example_env_later =
     example_env\<lparr>now_entry := example_today\<lparr>hour := 23, minute := 30\<rparr>, stdin := []\<rparr>"

definition example_env_done :: env where
  \<comment> \<open>the run in which the user finishes at once\<close>
  "example_env_done = example_env\<lparr>stdin := [Line ''done'']\<rparr>"

definition example_world_after :: world where
  \<comment> \<open>a repository in which the entry of the day was written at 21:07:09\<close>
  "example_world_after =
     \<lparr>nodes = [''/home/u/daily-journal'' \<mapsto> Dir 0,
               ''/home/u/daily-journal/.git'' \<mapsto> Dir 0,
               ''/home/u/daily-journal/journals'' \<mapsto> Dir 507629,
               ''/home/u/daily-journal/journals/march-2024'' \<mapsto> Dir 507629,
               ''/home/u/daily-journal/journals/march-2024/05'' \<mapsto> Dir 507629,
               ''/home/u/daily-journal/journals/march-2024/05/2024-03-05.md'' \<mapsto>
                 File ''# Journal Entry: 2024-03-05'' 507629],
      git = Some empty_repo, trace = [], logged = [], out = []\<rparr>"

definition example_world_repo :: world where
  \<comment> \<open>a directory with a repository and no journal yet\<close>
  "example_world_repo =
     \<lparr>nodes = [''/home/u/daily-journal'' \<mapsto> Dir 0,
               ''/home/u/daily-journal/.git'' \<mapsto> Dir 0],
      git = Some empty_repo, trace = [], logged = [], out = []\<rparr>"

definition example_world_readme :: world where
  \<comment> \<open>a directory without a repository, in which a README.md is kept already\<close>
  "example_world_readme =
     \<lparr>nodes = [''/home/u/daily-journal'' \<mapsto> Dir 0,
               ''/home/u/daily-journal/README.md'' \<mapsto> File ''# My notes'' 0],
      git = None, trace = [], logged = [], out = []\<rparr>"

definition example_env_interrupt :: env where
  \<comment> \<open>the user picks the first prompt and then presses Ctrl-C\<close>
  "example_env_interrupt = example_env\<lparr>stdin := [Line ''1'', Raises KeyboardInterrupt]\<rparr>"

definition example_env_eof :: env where
  \<comment> \<open>the input stream is closed\<close>
  "example_env_eof = example_env\<lparr>stdin := []\<rparr>"

definition example_env_init_fails :: env where
  "example_env_init_fails =
     example_env\<lparr>fault := (\<lambda>c. case c of GitInit p \<Rightarrow> Some (Exception ''git init failed'')
                                   | _ \<Rightarrow> None)\<rparr>"

definition example_env_nodiff :: env where
  \<comment> \<open>a second run on the same day, in which staging changes nothing\<close>
  "example_env_nodiff = example_env_later\<lparr>diff_staged := []\<rparr>"

definition many_ones :: string where
  \<comment> \<open>the decimal number written with 4301 ones, as one line of input\<close>
  "many_ones = replicate 4301 (CHR ''1'')"

definition example_env_superscript :: env where
  \<comment> \<open>the user types the one character U+00B2 (superscript two) as an own prompt\<close>
  "example_env_superscript = example_env\<lparr>stdin := [Line [CHR 0xB2], Line ''done'']\<rparr>"

text \<open>
  Two runs on 2024-11-03 in the time zone America/Havana, where the clock is set back
  from 01:00 to 00:00 that night, so that the hour from 00:00 to 01:00 occurs twice on
  that calendar date. \<open>havana_timestamp\<close> is the conversion of the zone for the times of
  that hour. The first run is at 00:30 before the change, the second at 00:15 after it
  (forty-five minutes later); the user finishes at once in both.
\<close>

definition havana_timestamp :: "datetime \<Rightarrow> real" where
  "havana_timestamp d =
     real (1730606400 + (if fold d then 3600 else 0) + 3600 * hour d + 60 * minute d +
           second d)"

definition havana_first :: env where
  "havana_first =
     \<lparr>now_entry = \<lparr>year = 2024, month = 11, day = 3, hour = 0, minute = 30, second = 0,
                    microsecond = 0, fold = False\<rparr>,
      now_footer = \<lparr>year = 2024, month = 11, day = 3, hour = 0, minute = 30, second = 0,
                     microsecond = 0, fold = False\<rparr>,
      now_commit = \<lparr>year = 2024, month = 11, day = 3, hour = 0, minute = 30, second = 0,
                     microsecond = 0, fold = False\<rparr>,
      local_timestamp = havana_timestamp,
      stdin = [Line ''done''],
      fault = (\<lambda>c. None),
      diff_staged = ''diff --git a/journals/november-2024/03/2024-11-03.md'',
      stamp = (\<lambda>p. 1730608200)\<rparr>"

definition havana_second :: env where
  "havana_second =
     \<lparr>now_entry = \<lparr>year = 2024, month = 11, day = 3, hour = 0, minute = 15, second = 0,
                    microsecond = 0, fold = True\<rparr>,
      now_footer = \<lparr>year = 2024, month = 11, day = 3, hour = 0, minute = 15, second = 0,
                     microsecond = 0, fold = True\<rparr>,
      now_commit = \<lparr>year = 2024, month = 11, day = 3, hour = 0, minute = 15, second = 0,
                     microsecond = 0, fold = True\<rparr>,
      local_timestamp = havana_timestamp,
      stdin = [Line ''done''],
      fault = (\<lambda>c. None),
      diff_staged = ''diff --git a/journals/november-2024/03/2024-11-03.md'',
      stamp = (\<lambda>p. 1730610900)\<rparr>"

text \<open>
  The layout of the specification:
  \<open>journals/<month-name-lowercase>-<YYYY>/<DD>/<YYYY-MM-DD>.md\<close> under the repository
  root, written out digit by digit.
\<close>

definition four_digits :: "nat \<Rightarrow> string" where
  "four_digits n =
     [digit_char (n div 1000 mod 10), digit_char (n div 100 mod 10),
      digit_char (n div 10 mod 10), digit_char (n mod 10)]"

definition two_digits :: "nat \<Rightarrow> string" where
  "two_digits n = [digit_char (n div 10 mod 10), digit_char (n mod 10)]"

definition LOWER_MONTH_NAMES :: "string list" where
  "LOWER_MONTH_NAMES =
     [''january'', ''february'', ''march'', ''april'', ''may'', ''june'', ''july'',
      ''august'', ''september'', ''october'', ''november'', ''december'']"

definition spec_relative_path :: "datetime \<Rightarrow> string" where
  "spec_relative_path D =
     ''journals/'' @ LOWER_MONTH_NAMES ! (month D - 1) @ ''-'' @ four_digits (year D) @
     ''/'' @ two_digits (day D) @
     ''/'' @ four_digits (year D) @ ''-'' @ two_digits (month D) @ ''-'' @ two_digits (day D) @
     ''.md''"

definition spec_entry_path :: "string \<Rightarrow> datetime \<Rightarrow> string" where
  "spec_entry_path base D =
     base @ (if base = [] \<or> last base = CHR ''/'' then [] else ''/'') @ spec_relative_path D"

section \<open>Evaluation and sequencing\<close>

lemma char_eq_char_of: "(c = char_of (n::nat)) = (take_bit 8 n = of_char c)"
  using char_of_eq_iff [of n c] by auto

lemmas eval_strings = strip_def isspace_char_def lower_def lower_char_def char_of_eq_iff
  char_eq_char_of isdigit_def isdigit_char_def isdecimal_char_def py_int_def digit_value_def
  INT_MAX_STR_DIGITS_def
  digit_char_def zfill_def

lemmas eval_paths = file_path_def day_dir_def month_dir_def journals_dir_def path_join_def
  date_str_def day_number_def month_year_def month_name_def year_str_def fmt_Y_def fmt_m_def
  fmt_d_def fmt_B_def MONTH_NAMES_def

lemmas eval_io = seq_def ret_def when_io_def external_def logger_info_def logger_error_def
  print_lines_def path_exists_def isdir_def os_makedirs_def write_file_def with_repo_def
  git_init_def git_config_writer_def git_set_value_def git_add_def git_commit_def
  git_diff_staged_def git_remotes_def git_push_def git_open_def try_except_def

lemmas eval_example = example_config_def example_env_def example_world_def example_today_def
  example_env_later_def example_world_after_def example_env_done_def example_world_repo_def
  example_world_readme_def example_env_interrupt_def example_env_eof_def
  example_env_init_fails_def example_env_nodiff_def example_env_superscript_def
  havana_first_def havana_second_def havana_timestamp_def

lemma seq_Inr:
  "seq m f w = (Inr b, w') \<Longrightarrow> \<exists>a w1. m w = (Inr a, w1) \<and> f a w1 = (Inr b, w')"
  by (auto simp: seq_def split: prod.splits sum.splits)

section \<open>The selection loop\<close>

lemma length_JOURNAL_PROMPTS: "length JOURNAL_PROMPTS = 10"
  by (simp add: JOURNAL_PROMPTS_def)

lemma lower_char_digit: "isdigit_char c \<Longrightarrow> lower_char c = c"
  by (auto simp: isdigit_char_def lower_char_def Let_def)

lemma isdigit_not_done: "isdigit u \<Longrightarrow> lower u \<noteq> ''done''"
proof
  assume d: "isdigit u" and l: "lower u = ''done''"
  from d obtain c cs where u: "u = c # cs" and c: "isdigit_char c"
    by (cases u) (auto simp: isdigit_def)
  from l u have "lower_char c = CHR ''d''" by (simp add: lower_def)
  with c have "c = CHR ''d''" by (simp add: lower_char_digit)
  with c show False by (simp add: isdigit_char_def)
qed

lemma selection_loop_full:
  "3 < count \<Longrightarrow> selection_loop count selected ins printed = (Inr selected, printed)"
proof (cases ins)
  case Nil
  then show "3 < count \<Longrightarrow> ?thesis" by (simp add: selection_loop.simps)
next
  case (Cons ev rest)
  then show "3 < count \<Longrightarrow> ?thesis" by (cases ev) (simp_all add: selection_loop.simps)
qed

lemma selection_loop_blank:
  "count \<le> 3 \<Longrightarrow> strip l = [] \<Longrightarrow>
   selection_loop count selected (Line l # rest) printed =
   selection_loop count selected rest (printed @ [prompt_text count])"
  by (simp add: selection_loop.simps lower_def isdigit_def)

lemma selection_loop_done:
  "count \<le> 3 \<Longrightarrow> lower (strip l) = ''done'' \<Longrightarrow>
   selection_loop count selected (Line l # rest) printed =
   (Inr selected, printed @ [prompt_text count])"
  by (simp add: selection_loop.simps)

lemma selection_loop_number:
  "count \<le> 3 \<Longrightarrow> isdigit (strip l) \<Longrightarrow> py_int (strip l) = Inr n \<Longrightarrow>
   selection_loop count selected (Line l # rest) printed =
   selection_loop (count + 1)
     (selected @ [if 1 \<le> n \<and> n \<le> 10 then JOURNAL_PROMPTS ! nat (n - 1) else strip l])
     rest (printed @ [prompt_text count])"
  using isdigit_not_done [of "strip l"]
  by (auto simp add: selection_loop.simps length_JOURNAL_PROMPTS isdigit_def)

lemma selection_loop_text:
  "count \<le> 3 \<Longrightarrow> \<not> isdigit (strip l) \<Longrightarrow> strip l \<noteq> [] \<Longrightarrow>
   lower (strip l) \<noteq> ''done'' \<Longrightarrow>
   selection_loop count selected (Line l # rest) printed =
   selection_loop (count + 1) (selected @ [strip l]) rest (printed @ [prompt_text count])"
  by (simp add: selection_loop.simps)

section \<open>Creating the entry\<close>

lemma ensure_dir_present: "path_exists w d \<Longrightarrow> ensure_dir e kind d w = (Inr (), w)"
  by (simp add: ensure_dir_def when_io_def)

lemma ensure_dir_absent:
  "\<not> path_exists w d \<Longrightarrow> fault e (MakeDirs d) = None \<Longrightarrow>
   ensure_dir e kind d w =
     (Inr (), w\<lparr>trace := trace w @ [MakeDirs d],
               nodes := (nodes w)(d \<mapsto> Dir (stamp e d)),
               logged := logged w @ [(INFO, ''Created '' @ kind @ '' directory at '' @ d)]\<rparr>)"
  by (simp add: ensure_dir_def when_io_def seq_def os_makedirs_def external_def logger_info_def
      path_exists_def Let_def)

lemma ensure_dir_Inr:
  assumes "ensure_dir e kind d w = (Inr u, w')"
  shows "path_exists w' d" and "path_exists w p \<Longrightarrow> path_exists w' p"
    and "p \<noteq> d \<Longrightarrow> nodes w' p = nodes w p"
  using assms
  by (auto simp: ensure_dir_def when_io_def seq_def os_makedirs_def external_def logger_info_def
      path_exists_def Let_def split: if_splits option.splits)

lemma create_journal_entry_skip:
  assumes "path_exists w (journals_dir cfg)"
    and "path_exists w (month_dir cfg (now_entry e))"
    and "path_exists w (day_dir cfg (now_entry e))"
    and "entry_is_current e w (file_path cfg (now_entry e)) (now_entry e)"
  shows "create_journal_entry cfg e w =
     (Inr (file_path cfg (now_entry e)),
      w\<lparr>logged := logged w @
           [(INFO, ''Journal entry for '' @ date_str (now_entry e) @
                   '' already exists. Skipping creation.'')]\<rparr>)"
  using assms
  by (simp add: create_journal_entry_def Let_def ensure_dir_present seq_def logger_info_def
      ret_def)

lemma create_journal_entry_Inr:
  assumes "create_journal_entry cfg e w = (Inr p, w')"
  shows "p = file_path cfg (now_entry e)"
    and "path_exists w' (journals_dir cfg)"
    and "path_exists w' (month_dir cfg (now_entry e))"
    and "path_exists w' (day_dir cfg (now_entry e))"
    and "entry_is_current e w' p (now_entry e) \<or> (\<exists>c. nodes w' p = Some (File c (stamp e p)))"
proof -
  let ?today = "now_entry e"
  from assms obtain u1 w1 u2 w2 u3 w3 where
    d1: "ensure_dir e ''journals'' (journals_dir cfg) w = (Inr u1, w1)" and
    d2: "ensure_dir e ''month'' (month_dir cfg ?today) w1 = (Inr u2, w2)" and
    d3: "ensure_dir e ''day'' (day_dir cfg ?today) w2 = (Inr u3, w3)" and
    rest: "(if entry_is_current e w3 (file_path cfg ?today) ?today
           then seq (logger_info (''Journal entry for '' @ date_str ?today @
                                   '' already exists. Skipping creation.''))
                  (\<lambda>_. ret (file_path cfg ?today)) w3
           else seq (print_lines menu_lines) (\<lambda>_.
                seq (read_selection e) (\<lambda>selected_prompts.
                seq (write_file e (file_path cfg ?today)
                       (entry_content ?today selected_prompts (now_footer e))) (\<lambda>_.
                seq (logger_info (''Created journal entry: '' @ file_path cfg ?today)) (\<lambda>_.
                ret (file_path cfg ?today))))) w3) = (Inr p, w')"
    unfolding create_journal_entry_def Let_def
    by (blast dest!: seq_Inr)
  have e3: "path_exists w3 (journals_dir cfg)" "path_exists w3 (month_dir cfg ?today)"
    "path_exists w3 (day_dir cfg ?today)"
    using ensure_dir_Inr [OF d1] ensure_dir_Inr [OF d2] ensure_dir_Inr [OF d3] by blast+
  show "p = file_path cfg (now_entry e)"
    using rest
    by (auto simp: seq_def ret_def logger_info_def print_lines_def
        split: if_splits prod.splits sum.splits)
  show "path_exists w' (journals_dir cfg)"
    and "path_exists w' (month_dir cfg (now_entry e))"
    and "path_exists w' (day_dir cfg (now_entry e))"
    and "entry_is_current e w' p (now_entry e) \<or> (\<exists>c. nodes w' p = Some (File c (stamp e p)))"
    using rest e3
    by (auto simp: seq_def ret_def logger_info_def print_lines_def read_selection_def
        write_file_def external_def path_exists_def entry_is_current_def Let_def
        split: if_splits prod.splits sum.splits option.splits)
qed

lemma file_path_same_date:
  "same_calendar_date a b \<Longrightarrow> file_path cfg a = file_path cfg b"
  "same_calendar_date a b \<Longrightarrow> day_dir cfg a = day_dir cfg b"
  "same_calendar_date a b \<Longrightarrow> month_dir cfg a = month_dir cfg b"
  "same_calendar_date a b \<Longrightarrow> date_str a = date_str b"
  by (simp_all add: same_calendar_date_def eval_paths)

section \<open>Idempotence of entry creation\<close>

lemma example_run_entry:
  "fst (create_journal_entry example_config example_env example_world) =
   Inr ''/home/u/daily-journal/journals/march-2024/05/2024-03-05.md''"
  by (simp add: create_journal_entry_def ensure_dir_def read_selection_def entry_is_current_def
      eval_example eval_paths eval_strings eval_io Let_def selection_loop.simps str_nat.simps
      JOURNAL_PROMPTS_def prompt_text_def)

lemma example_paths:
  "file_path example_config example_today =
     ''/home/u/daily-journal/journals/march-2024/05/2024-03-05.md''"
  "day_dir example_config example_today = ''/home/u/daily-journal/journals/march-2024/05''"
  "month_dir example_config example_today = ''/home/u/daily-journal/journals/march-2024''"
  "journals_dir example_config = ''/home/u/daily-journal/journals''"
  "date_str example_today = ''2024-03-05''"
  by (simp_all add: eval_example eval_paths eval_strings str_nat.simps)





section \<open>What the selection loop does with a line\<close>

lemma strip_replicate:
  assumes "0 < n" and "\<not> isspace_char c"
  shows "strip (replicate n c) = replicate n c"
proof -
  from assms have "dropWhile isspace_char (replicate n c) = replicate n c"
    by (simp add: dropWhile_eq_self_iff)
  with assms show ?thesis by (simp add: strip_def dropWhile_eq_self_iff)
qed

lemma isdigit_replicate:
  "0 < n \<Longrightarrow> isdigit_char c \<Longrightarrow> isdigit (replicate n c)"
  by (simp add: isdigit_def list_all_iff)

lemma py_int_over_limit:
  "INT_MAX_STR_DIGITS < n \<Longrightarrow> isdecimal_char c \<Longrightarrow>
   py_int (replicate n c) =
     Inl (Exception (''Exceeds the limit (4300 digits) for integer string conversion: value has '' @
                     str_nat n @
                     '' digits; use sys.set_int_max_str_digits() to increase the limit''))"
  by (auto simp: py_int_def list_all_iff)

lemma many_ones_facts:
  "strip many_ones = many_ones" "isdigit many_ones"
  "py_int many_ones =
     Inl (Exception ''Exceeds the limit (4300 digits) for integer string conversion: value has 4301 digits; use sys.set_int_max_str_digits() to increase the limit'')"
proof -
  have c: "\<not> isspace_char (CHR ''1'')" "isdigit_char (CHR ''1'')" "isdecimal_char (CHR ''1'')"
    by (simp_all add: isspace_char_def isdigit_char_def isdecimal_char_def)
  have n: "(0::nat) < 4301" "INT_MAX_STR_DIGITS < 4301"
    by (simp_all add: INT_MAX_STR_DIGITS_def)
  have s: "str_nat 4301 = ''4301''"
    by (simp add: str_nat.simps digit_char_def char_of_eq_iff)
  show "strip many_ones = many_ones"
    unfolding many_ones_def by (rule strip_replicate [OF n(1) c(1)])
  show "isdigit many_ones"
    unfolding many_ones_def by (rule isdigit_replicate [OF n(1) c(2)])
  show "py_int many_ones =
     Inl (Exception ''Exceeds the limit (4300 digits) for integer string conversion: value has 4301 digits; use sys.set_int_max_str_digits() to increase the limit'')"
    unfolding many_ones_def using py_int_over_limit [OF n(2) c(3)] by (simp only: s append.simps)
qed

lemma superscript_facts:
  "strip [CHR 0xB2] = [CHR 0xB2]" "isdigit [CHR 0xB2]"
  "py_int [CHR 0xB2] =
     Inl (Exception (''invalid literal for int() with base 10: '' @ [CHR 0x27, CHR 0xB2, CHR 0x27]))"
  by (simp_all add: eval_strings)

lemma selection_loop_int_raises:
  "count \<le> 3 \<Longrightarrow> isdigit (strip l) \<Longrightarrow> py_int (strip l) = Inl x \<Longrightarrow>
   selection_loop count selected (Line l # rest) printed = (Inl x, printed @ [prompt_text count])"
  using isdigit_not_done [of "strip l"]
  by (simp add: selection_loop.simps)

lemma example_superscript_run:
  "fst (commit_to_github example_config example_env_superscript example_world_repo) = Inr False"
  "last (logged (snd (commit_to_github example_config example_env_superscript
                       example_world_repo))) =
     (ERROR, ''Error committing to GitHub: invalid literal for int() with base 10: '' @
             [CHR 0x27, CHR 0xB2, CHR 0x27])"
  "nodes (snd (commit_to_github example_config example_env_superscript example_world_repo))
     ''/home/u/daily-journal/journals/march-2024/05/2024-03-05.md'' = None"
  by (simp_all add: commit_to_github_def commit_to_github_body_def setup_repo_def
      setup_repo_body_def create_journal_entry_def ensure_dir_def read_selection_def
      entry_is_current_def eval_example eval_paths eval_strings eval_io Let_def
      selection_loop.simps str_nat.simps prompt_text_def empty_repo_def)

text \<open>
  Claim C7 says that a numeric input is a menu selection only in the range 1 to 10, and
  that every numeric input out of that range is appended as free text, with no other
  validation. The loop misses this for lines that pass its own test \<open>isdigit\<close> and that
  \<open>int\<close> does not convert: on the superscript two, and on a decimal number of 4301
  digits, \<open>int\<close> raises ValueError, the loop ends with that exception and appends
  nothing. In a run of \<open>commit_to_github\<close> in which the user types the superscript two,
  the exception is logged as an error, the result is \<open>False\<close> and no entry is written.
\<close>

theorem selection_loop_digit_line_raises:
  "isdigit (strip [CHR 0xB2]) \<and>
   selection_loop 1 [] [Line [CHR 0xB2], Line ''done''] [] =
     (Inl (Exception (''invalid literal for int() with base 10: '' @
                      [CHR 0x27, CHR 0xB2, CHR 0x27])),
      [prompt_text 1]) \<and>
   many_ones = replicate 4301 (CHR ''1'') \<and> isdigit (strip many_ones) \<and>
   selection_loop 1 [] [Line many_ones, Line ''done''] [] =
     (Inl (Exception ''Exceeds the limit (4300 digits) for integer string conversion: value has 4301 digits; use sys.set_int_max_str_digits() to increase the limit''),
      [prompt_text 1]) \<and>
   fst (commit_to_github example_config example_env_superscript example_world_repo) =
     Inr False \<and>
   last (logged (snd (commit_to_github example_config example_env_superscript
                       example_world_repo))) =
     (ERROR, ''Error committing to GitHub: invalid literal for int() with base 10: '' @
             [CHR 0x27, CHR 0xB2, CHR 0x27]) \<and>
   nodes (snd (commit_to_github example_config example_env_superscript example_world_repo))
     ''/home/u/daily-journal/journals/march-2024/05/2024-03-05.md'' = None"
proof -
  have le: "(1::nat) \<le> 3" by simp
  have a: "selection_loop 1 [] [Line [CHR 0xB2], Line ''done''] [] =
     (Inl (Exception (''invalid literal for int() with base 10: '' @
                      [CHR 0x27, CHR 0xB2, CHR 0x27])),
      [] @ [prompt_text 1])"
    by (rule selection_loop_int_raises [OF le]) (simp_all only: superscript_facts)
  have b: "selection_loop 1 [] [Line many_ones, Line ''done''] [] =
     (Inl (Exception ''Exceeds the limit (4300 digits) for integer string conversion: value has 4301 digits; use sys.set_int_max_str_digits() to increase the limit''),
      [] @ [prompt_text 1])"
    by (rule selection_loop_int_raises [OF le]) (simp_all only: many_ones_facts)
  have c: "isdigit (strip [CHR 0xB2])" "isdigit (strip many_ones)"
    by (simp_all only: superscript_facts many_ones_facts)
  have d: "many_ones = replicate 4301 (CHR ''1'')" by (rule many_ones_def)
  from a b have a': "selection_loop 1 [] [Line [CHR 0xB2], Line ''done''] [] =
     (Inl (Exception (''invalid literal for int() with base 10: '' @
                      [CHR 0x27, CHR 0xB2, CHR 0x27])), [prompt_text 1])"
    and b': "selection_loop 1 [] [Line many_ones, Line ''done''] [] =
     (Inl (Exception ''Exceeds the limit (4300 digits) for integer string conversion: value has 4301 digits; use sys.set_int_max_str_digits() to increase the limit''),
      [prompt_text 1])"
    by (simp_all only: append_Nil)
  show ?thesis
    by (intro conjI) (rule c a' d b' example_superscript_run)+
qed

lemma selection_loop_without_blanks:
  "fst (selection_loop count selected ins printed) =
   fst (selection_loop count selected (filter (\<lambda>ev. \<not> blank ev) ins) printed')"
proof (cases "count \<le> 3")
  case False
  then show ?thesis by (simp add: selection_loop_full)
next
  case True
  then show ?thesis
  proof (induction ins arbitrary: count selected printed printed')
    case Nil
    then show ?case by (simp add: selection_loop.simps)
  next
    case (Cons ev rest)
    have step: "fst (selection_loop c s rest p) =
        fst (selection_loop c s (filter (\<lambda>ev. \<not> blank ev) rest) p')" for c s p p'
      using Cons.IH [of c s p p'] by (cases "c \<le> 3") (simp_all add: selection_loop_full)
    show ?case
    proof (cases ev)
      case (Raises x)
      with Cons.prems show ?thesis by (simp add: selection_loop.simps blank_def)
    next
      case (Line l)
      show ?thesis
      proof (cases "strip l = []")
        case True
        with Line Cons.prems show ?thesis
          using step by (simp add: selection_loop_blank blank_def)
      next
        case False
        with Line Cons.prems show ?thesis
          using step
          by (simp add: selection_loop.simps blank_def Let_def split: sum.splits)
      qed
    qed
  qed
qed

text \<open>
  Claim C10. With a slot still free, a line that is empty once stripped is passed over: the
  loop goes on with the same counter and the same selection, and asks again for the same
  slot; blank lines never change what the loop returns. A line that is not empty either
  ends the loop (the word done, or an exception) or fills a slot and moves the counter on
  by one.
\<close>

theorem selection_loop_blank_ignored:
  "(count \<le> 3 \<and> strip l = [] \<longrightarrow>
      selection_loop count selected (Line l # rest) printed =
      selection_loop count selected rest (printed @ [prompt_text count])) \<and>
   fst (selection_loop count selected ins printed) =
     fst (selection_loop count selected (filter (\<lambda>ev. \<not> blank ev) ins) printed) \<and>
   (count \<le> 3 \<and> strip l \<noteq> [] \<longrightarrow>
      (\<exists>r. selection_loop count selected (Line l # rest) printed =
            (r, printed @ [prompt_text count])) \<or>
      (\<exists>x. selection_loop count selected (Line l # rest) printed =
            selection_loop (count + 1) (selected @ [x]) rest (printed @ [prompt_text count])))"
proof (intro conjI impI)
  assume "count \<le> 3 \<and> strip l = []"
  then show "selection_loop count selected (Line l # rest) printed =
      selection_loop count selected rest (printed @ [prompt_text count])"
    by (simp add: selection_loop_blank)
next
  show "fst (selection_loop count selected ins printed) =
     fst (selection_loop count selected (filter (\<lambda>ev. \<not> blank ev) ins) printed)"
    by (rule selection_loop_without_blanks)
next
  assume "count \<le> 3 \<and> strip l \<noteq> []"
  then show "(\<exists>r. selection_loop count selected (Line l # rest) printed =
            (r, printed @ [prompt_text count])) \<or>
      (\<exists>x. selection_loop count selected (Line l # rest) printed =
            selection_loop (count + 1) (selected @ [x]) rest (printed @ [prompt_text count]))"
    by (auto simp: selection_loop.simps Let_def split: sum.splits)
qed

theorem selection_loop_blank_ignored_witness:
  "((1::nat) \<le> 3 \<and> strip ''  '' = []) \<and>
   fst (selection_loop 1 [] [Line ''  '', Line ''2'', Line [], Line ''done''] []) =
     Inr [''What could have gone better?''] \<and>
   snd (selection_loop 1 [] [Line ''  '', Line ''done''] []) = [prompt_text 1, prompt_text 1] \<and>
   ((1::nat) \<le> 3 \<and> strip ''2'' \<noteq> []) \<and>
   ((\<exists>r. selection_loop 1 [] [Line ''2''] [] = (r, [] @ [prompt_text 1])) \<or>
    (\<exists>x. selection_loop 1 [] [Line ''2''] [] =
          selection_loop (1 + 1) ([] @ [x]) [] ([] @ [prompt_text 1])))"
proof -
  have s: "strip ''  '' = []" "strip [] = []" "strip ''2'' = ''2''" "strip ''done'' = ''done''"
    "lower ''done'' = ''done''" "isdigit ''2''" "py_int ''2'' = Inr 2"
    by (simp_all add: eval_strings)
  have le: "(1::nat) \<le> 3" by simp
  have a: "c \<le> 3 \<Longrightarrow> fst (selection_loop c sel [Line [], Line ''done''] pr) = Inr sel"
    for c sel pr
    by (simp add: selection_loop_blank selection_loop_done s)
  have b: "fst (selection_loop 1 [] [Line ''2'', Line [], Line ''done''] [prompt_text 1]) =
           Inr [''What could have gone better?'']"
    using selection_loop_number [OF le, of "''2''" 2 "[]" "[Line [], Line ''done'']"
        "[prompt_text 1]"]
    by (simp add: s a JOURNAL_PROMPTS_def)
  have c: "selection_loop 1 [] [Line ''done''] [prompt_text 1] =
           (Inr [], [prompt_text 1, prompt_text 1])"
    by (simp add: selection_loop_done s)
  have d: "(\<exists>r. selection_loop 1 [] [Line ''2''] [] = (r, [] @ [prompt_text 1])) \<or>
    (\<exists>x. selection_loop 1 [] [Line ''2''] [] =
          selection_loop (1 + 1) ([] @ [x]) [] ([] @ [prompt_text 1]))"
  proof -
    have ne: "strip ''2'' \<noteq> []" by (simp add: s)
    show ?thesis
      using selection_loop_blank_ignored [of 1 "''2''" "[]" "[]" "[]" "[]"] ne le by blast
  qed
  show ?thesis
    using selection_loop_blank_ignored [of 1 "''  ''" "[]"
        "[Line ''2'', Line [], Line ''done'']" "[]" "[]"]
      selection_loop_blank_ignored [of 1 "''  ''" "[]" "[Line ''done'']" "[]" "[]"] b c d
    by (simp add: s)
qed

section \<open>The layout of the entry path\<close>

lemma of_char_digit_char: "k < 10 \<Longrightarrow> (of_char (digit_char k) :: nat) = 48 + k"
  by (simp add: digit_char_def)

lemma digit_char_not_slash: "k < 10 \<Longrightarrow> digit_char k \<noteq> CHR ''/''"
proof
  assume k: "k < 10" and eq: "digit_char k = CHR ''/''"
  have "(of_char (digit_char k) :: nat) = 47" by (simp add: eq)
  with k show False by (simp add: of_char_digit_char)
qed

lemma digit_char_0: "digit_char 0 = CHR ''0''"
  by (simp add: digit_char_def char_of_eq_iff)

lemma str_nat_lt10: "n < 10 \<Longrightarrow> str_nat n = [digit_char n]"
  by (simp add: str_nat.simps)

lemma str_nat_lt100: "10 \<le> n \<Longrightarrow> n < 100 \<Longrightarrow> str_nat n = [digit_char (n div 10), digit_char (n mod 10)]"
  by (subst str_nat.simps) (simp add: str_nat_lt10)

lemma str_nat_lt1000:
  "100 \<le> n \<Longrightarrow> n < 1000 \<Longrightarrow>
   str_nat n = [digit_char (n div 100), digit_char (n div 10 mod 10), digit_char (n mod 10)]"
  by (subst str_nat.simps) (simp add: str_nat_lt100 div_mult2_eq [symmetric])

lemma str_nat_lt10000:
  "1000 \<le> n \<Longrightarrow> n < 10000 \<Longrightarrow>
   str_nat n = [digit_char (n div 1000), digit_char (n div 100 mod 10),
                digit_char (n div 10 mod 10), digit_char (n mod 10)]"
  by (subst str_nat.simps) (simp add: str_nat_lt1000 div_mult2_eq [symmetric])

lemma zfill2_two_digits: "n < 100 \<Longrightarrow> zfill 2 (str_nat n) = two_digits n"
proof (cases "n < 10")
  case True
  then show ?thesis by (simp add: zfill_def two_digits_def str_nat_lt10 digit_char_0)
next
  case False
  assume n: "n < 100"
  then have "n div 10 < 10" by simp
  with False n show ?thesis by (simp add: zfill_def two_digits_def str_nat_lt100)
qed

lemma str_nat_four_digits: "1000 \<le> n \<Longrightarrow> n < 10000 \<Longrightarrow> str_nat n = four_digits n"
proof -
  assume n: "1000 \<le> n" "n < 10000"
  then have "n div 1000 < 10" by simp
  with n show ?thesis by (simp add: four_digits_def str_nat_lt10000)
qed

lemma str_nat_chars: "str_nat n \<noteq> [] \<and> (\<forall>c \<in> set (str_nat n). c \<noteq> CHR ''/'')"
proof (induction n rule: str_nat.induct)
  case (1 n)
  show ?case
  proof (cases "n < 10")
    case True
    then show ?thesis by (simp add: str_nat_lt10 digit_char_not_slash)
  next
    case False
    then have s: "str_nat n = str_nat (n div 10) @ [digit_char (n mod 10)]"
      by (subst str_nat.simps) simp
    have "n mod 10 < 10" by simp
    then have "digit_char (n mod 10) \<noteq> CHR ''/''" by (rule digit_char_not_slash)
    with 1 [OF False] show ?thesis by (simp add: s)
  qed
qed

lemma str_nat_ends:
  "str_nat n \<noteq> []" "hd (str_nat n) \<noteq> CHR ''/''" "last (str_nat n) \<noteq> CHR ''/''"
  using str_nat_chars [of n] hd_in_set [of "str_nat n"] last_in_set [of "str_nat n"]
  by auto

lemma month_cases:
  assumes "1 \<le> m" and "m \<le> 12"
  obtains "m = 1" | "m = 2" | "m = 3" | "m = 4" | "m = 5" | "m = 6" | "m = 7" | "m = 8"
    | "m = 9" | "m = 10" | "m = 11" | "m = (12::nat)"
proof -
  from assms have "m = 1 \<or> m = 2 \<or> m = 3 \<or> m = 4 \<or> m = 5 \<or> m = 6 \<or> m = 7 \<or> m = 8 \<or>
      m = 9 \<or> m = 10 \<or> m = 11 \<or> m = 12"
    by presburger
  then show thesis using that by blast
qed

lemma lower_month_name:
  assumes "1 \<le> m" and "m \<le> 12"
  shows "lower (MONTH_NAMES ! (m - 1)) = LOWER_MONTH_NAMES ! (m - 1)"
  using assms
  by (rule month_cases)
    (simp_all add: MONTH_NAMES_def LOWER_MONTH_NAMES_def lower_def lower_char_def char_of_eq_iff)

lemma lower_month_name_head:
  assumes "1 \<le> m" and "m \<le> 12"
  shows "LOWER_MONTH_NAMES ! (m - 1) \<noteq> [] \<and> hd (LOWER_MONTH_NAMES ! (m - 1)) \<noteq> CHR ''/''"
  using assms by (rule month_cases) (simp_all add: LOWER_MONTH_NAMES_def)

lemma path_join_plain:
  "b \<noteq> [] \<Longrightarrow> hd b \<noteq> CHR ''/'' \<Longrightarrow> a \<noteq> [] \<Longrightarrow> last a \<noteq> CHR ''/'' \<Longrightarrow>
   path_join a b = a @ ''/'' @ b"
  by (simp add: path_join_def)

lemma journals_dir_eq:
  "journals_dir cfg =
   REPO_PATH cfg @ (if REPO_PATH cfg = [] \<or> last (REPO_PATH cfg) = CHR ''/'' then [] else ''/'') @
   ''journals''"
  by (simp add: journals_dir_def path_join_def)

lemma strftime_digits:
  assumes "valid_datetime D"
  shows "fmt_m D = two_digits (month D)"
    and "fmt_d D = two_digits (day D)" and "month_name D = LOWER_MONTH_NAMES ! (month D - 1)"
proof -
  from assms have m: "1 \<le> month D" "month D \<le> 12" "month D < 100"
    and d: "day D < 100"
    by (simp_all add: valid_datetime_def)
  show "fmt_m D = two_digits (month D)" by (simp add: fmt_m_def zfill2_two_digits m)
  show "fmt_d D = two_digits (day D)" by (simp add: fmt_d_def zfill2_two_digits d)
  show "month_name D = LOWER_MONTH_NAMES ! (month D - 1)"
    using lower_month_name [OF m(1,2)] by (simp add: month_name_def fmt_B_def)
qed

lemma year_four_digits:
  assumes "valid_datetime D" and "1000 \<le> year D"
  shows "fmt_Y D = four_digits (year D)"
  using assms by (simp add: fmt_Y_def valid_datetime_def str_nat_four_digits)

lemma entry_paths_nested:
  assumes "valid_datetime D"
  shows "month_dir cfg D = journals_dir cfg @ ''/'' @ month_year D"
    and "day_dir cfg D = month_dir cfg D @ ''/'' @ day_number D"
    and "file_path cfg D = day_dir cfg D @ ''/'' @ date_str D @ ''.md''"
proof -
  from assms have m: "1 \<le> month D" "month D \<le> 12"
    by (simp_all add: valid_datetime_def)
  note f = strftime_digits [OF assms]
  note h = lower_month_name_head [OF m]
  note y = str_nat_ends [of "year D"]
  have j: "journals_dir cfg \<noteq> []" "last (journals_dir cfg) \<noteq> CHR ''/''"
    by (simp_all add: journals_dir_eq)
  show md: "month_dir cfg D = journals_dir cfg @ ''/'' @ month_year D"
    unfolding month_dir_def using h j
    by (intro path_join_plain) (simp_all add: month_year_def f)
  have my_last: "last (month_year D) \<noteq> CHR ''/''"
    using y by (simp add: month_year_def year_str_def fmt_Y_def)
  show dd: "day_dir cfg D = month_dir cfg D @ ''/'' @ day_number D"
    unfolding day_dir_def using my_last y
    by (intro path_join_plain)
      (simp_all add: md day_number_def f two_digits_def digit_char_not_slash month_year_def
        year_str_def fmt_Y_def)
  show "file_path cfg D = day_dir cfg D @ ''/'' @ date_str D @ ''.md''"
    unfolding file_path_def using y
    by (intro path_join_plain)
      (simp_all add: dd day_number_def f two_digits_def digit_char_not_slash date_str_def
        fmt_Y_def)
qed

lemma file_path_relative:
  assumes "valid_datetime D"
  shows "file_path cfg D =
    REPO_PATH cfg @ (if REPO_PATH cfg = [] \<or> last (REPO_PATH cfg) = CHR ''/'' then [] else ''/'') @
    entry_relative_path D"
  by (simp add: entry_paths_nested [OF assms] journals_dir_eq entry_relative_path_def)

lemma file_path_spec:
  assumes "valid_datetime D" and "1000 \<le> year D"
  shows "file_path cfg D = spec_entry_path (REPO_PATH cfg) D"
  by (simp add: file_path_relative [OF assms(1)] entry_relative_path_def
      strftime_digits [OF assms(1)] year_four_digits [OF assms]
      spec_entry_path_def spec_relative_path_def month_year_def year_str_def day_number_def
      date_str_def)

lemma entry_relative_path_spec:
  assumes "valid_datetime D" and "1000 \<le> year D"
  shows "entry_relative_path D = spec_relative_path D"
  by (simp add: entry_relative_path_def strftime_digits [OF assms(1)]
      year_four_digits [OF assms] spec_relative_path_def month_year_def year_str_def
      day_number_def date_str_def)

lemma entry_paths_distinct:
  assumes "valid_datetime D"
  shows "file_path cfg D \<noteq> journals_dir cfg" and "file_path cfg D \<noteq> month_dir cfg D"
    and "file_path cfg D \<noteq> day_dir cfg D"
  by (simp_all add: entry_paths_nested [OF assms])

lemma spec_entry_path_same_date:
  "same_calendar_date D D' \<Longrightarrow> spec_entry_path base D = spec_entry_path base D'"
  by (simp add: same_calendar_date_def spec_entry_path_def spec_relative_path_def)

lemma example_skip_run:
  "create_journal_entry example_config example_env_later example_world_after =
     (Inr ''/home/u/daily-journal/journals/march-2024/05/2024-03-05.md'',
      example_world_after\<lparr>logged :=
        [(INFO, ''Journal entry for 2024-03-05 already exists. Skipping creation.'')]\<rparr>)"
proof -
  have later: "now_entry example_env_later = example_today\<lparr>hour := 23, minute := 30\<rparr>"
    by (simp add: example_env_later_def example_env_def)
  have same: "same_calendar_date (example_today\<lparr>hour := 23, minute := 30\<rparr>) example_today"
    by (simp add: same_calendar_date_def)
  note paths = file_path_same_date(1-3) [OF same, of example_config]
    file_path_same_date(4) [OF same]
  have "path_exists example_world_after (journals_dir example_config)"
    "path_exists example_world_after (month_dir example_config (now_entry example_env_later))"
    "path_exists example_world_after (day_dir example_config (now_entry example_env_later))"
    "entry_is_current example_env_later example_world_after
      (file_path example_config (now_entry example_env_later)) (now_entry example_env_later)"
    by (simp_all add: later paths example_paths)
      (simp_all add: path_exists_def entry_is_current_def example_world_after_def
        example_env_later_def example_env_def example_today_def midnight_def)
  from create_journal_entry_skip [OF this] show ?thesis
    by (simp add: later paths example_paths example_world_after_def)
qed

lemma valid_example_today: "valid_datetime example_today" "1000 \<le> year example_today"
  by (simp_all add: valid_datetime_def example_today_def)

text \<open>
  Claim C2. For a date \<open>D\<close> the clock can give (a date of the calendar, in a year of four
  digits), the entry path that \<open>create_journal_entry\<close> computes is the path of the
  specification's layout,
  \<open>journals/<lowercase month name>-<four digits of the year>/<two digits of the day>/<YYYY-MM-DD>.md\<close>
  under the repository root; whenever the function returns, in the skip branch or after
  writing the entry, it returns that path; and the path depends on the calendar date only.
\<close>

theorem entry_path_layout:
  assumes "valid_datetime (now_entry e)" and "1000 \<le> year (now_entry e)"
  shows "file_path cfg (now_entry e) = spec_entry_path (REPO_PATH cfg) (now_entry e) \<and>
    (create_journal_entry cfg e w = (Inr p, w') \<longrightarrow>
       p = spec_entry_path (REPO_PATH cfg) (now_entry e)) \<and>
    (same_calendar_date D (now_entry e) \<longrightarrow>
       spec_entry_path (REPO_PATH cfg) D = spec_entry_path (REPO_PATH cfg) (now_entry e))"
  using create_journal_entry_Inr(1) [of cfg e w p w']
  by (auto simp: file_path_spec [OF assms] spec_entry_path_same_date)

theorem entry_path_layout_witness:
  "valid_datetime (now_entry example_env) \<and> 1000 \<le> year (now_entry example_env) \<and>
   create_journal_entry example_config example_env example_world =
     (Inr ''/home/u/daily-journal/journals/march-2024/05/2024-03-05.md'',
      snd (create_journal_entry example_config example_env example_world)) \<and>
   valid_datetime (now_entry example_env_later) \<and>
   1000 \<le> year (now_entry example_env_later) \<and>
   fst (create_journal_entry example_config example_env_later example_world_after) =
     Inr ''/home/u/daily-journal/journals/march-2024/05/2024-03-05.md'' \<and>
   same_calendar_date (now_entry example_env_later) (now_entry example_env) \<and>
   spec_entry_path (REPO_PATH example_config) (now_entry example_env_later) =
     ''/home/u/daily-journal/journals/march-2024/05/2024-03-05.md''"
proof -
  have v: "valid_datetime (now_entry example_env)" "1000 \<le> year (now_entry example_env)"
    using valid_example_today by (simp_all add: example_env_def)
  have v': "valid_datetime (now_entry example_env_later)"
    "1000 \<le> year (now_entry example_env_later)"
    by (simp_all add: valid_datetime_def example_env_later_def example_env_def
        example_today_def)
  have same: "same_calendar_date (now_entry example_env_later) (now_entry example_env)"
    by (simp add: same_calendar_date_def example_env_later_def example_env_def)
  have run: "create_journal_entry example_config example_env example_world =
     (Inr ''/home/u/daily-journal/journals/march-2024/05/2024-03-05.md'',
      snd (create_journal_entry example_config example_env example_world))"
    using example_run_entry by (simp add: prod_eq_iff)
  show ?thesis
    using v v' same run example_skip_run
      entry_path_layout [OF v, of example_config example_world
        "''/home/u/daily-journal/journals/march-2024/05/2024-03-05.md''"
        "snd (create_journal_entry example_config example_env example_world)"
        "now_entry example_env_later"]
      entry_path_layout [OF v', of example_config example_world_after
        "''/home/u/daily-journal/journals/march-2024/05/2024-03-05.md''"
        "example_world_after\<lparr>logged :=
          [(INFO, ''Journal entry for 2024-03-05 already exists. Skipping creation.'')]\<rparr>"]
    by simp
qed

section \<open>Writing the entry\<close>

lemma selection_loop_printed:
  "fst (selection_loop count selected ins printed) =
   fst (selection_loop count selected ins printed')"
proof (induction ins arbitrary: count selected printed printed')
  case Nil
  then show ?case by (simp add: selection_loop.simps)
next
  case (Cons ev rest)
  show ?case
  proof (cases ev)
    case (Raises x)
    then show ?thesis by (simp add: selection_loop.simps)
  next
    case (Line l)
    then show ?thesis
      using Cons.IH
      by (simp add: selection_loop.simps Let_def split: sum.splits)
  qed
qed

lemma ensure_dir_total:
  assumes "fault e (MakeDirs d) = None"
  shows "\<exists>w'. ensure_dir e kind d w = (Inr (), w') \<and> (\<forall>p. p \<noteq> d \<longrightarrow> nodes w' p = nodes w p)"
proof (cases "path_exists w d")
  case True
  then show ?thesis by (simp add: ensure_dir_present)
next
  case False
  then show ?thesis by (simp add: ensure_dir_absent [OF False assms])
qed

lemma read_selection_result:
  "fst (read_selection e w) = fst (selection_loop 1 [] (stdin e) [])"
  "nodes (snd (read_selection e w)) = nodes w"
  using selection_loop_printed [of 1 "[]" "stdin e" "out w" "[]"]
  by (auto simp: read_selection_def split: prod.splits)

lemma write_entry:
  assumes "fault e (WriteFile p) = None" and "\<not> isdir w p"
  shows "\<exists>w'. write_file e p c w = (Inr (), w') \<and> nodes w' p = Some (File c (stamp e p))"
  using assms by (simp add: write_file_def external_def isdir_def)

lemma create_journal_entry_creates:
  assumes distinct: "file_path cfg (now_entry e) \<noteq> journals_dir cfg"
      "file_path cfg (now_entry e) \<noteq> month_dir cfg (now_entry e)"
      "file_path cfg (now_entry e) \<noteq> day_dir cfg (now_entry e)"
    and dirs: "fault e (MakeDirs (journals_dir cfg)) = None"
      "fault e (MakeDirs (month_dir cfg (now_entry e))) = None"
      "fault e (MakeDirs (day_dir cfg (now_entry e))) = None"
    and wr: "fault e (WriteFile (file_path cfg (now_entry e))) = None"
    and stale: "\<not> entry_is_current e w (file_path cfg (now_entry e)) (now_entry e)"
    and nodir: "\<not> isdir w (file_path cfg (now_entry e))"
    and sel: "fst (selection_loop 1 [] (stdin e) []) = Inr selected"
  shows "\<exists>w'. create_journal_entry cfg e w = (Inr (file_path cfg (now_entry e)), w') \<and>
     nodes w' (file_path cfg (now_entry e)) =
       Some (File (entry_content (now_entry e) selected (now_footer e))
               (stamp e (file_path cfg (now_entry e))))"
proof -
  let ?today = "now_entry e" and ?fp = "file_path cfg (now_entry e)"
  obtain w1 where d1: "ensure_dir e ''journals'' (journals_dir cfg) w = (Inr (), w1)"
    and n1: "nodes w1 ?fp = nodes w ?fp"
    using ensure_dir_total [OF dirs(1)] distinct(1) by blast
  obtain w2 where d2: "ensure_dir e ''month'' (month_dir cfg ?today) w1 = (Inr (), w2)"
    and n2: "nodes w2 ?fp = nodes w1 ?fp"
    using ensure_dir_total [OF dirs(2)] distinct(2) by blast
  obtain w3 where d3: "ensure_dir e ''day'' (day_dir cfg ?today) w2 = (Inr (), w3)"
    and n3: "nodes w3 ?fp = nodes w2 ?fp"
    using ensure_dir_total [OF dirs(3)] distinct(3) by blast
  have n: "nodes w3 ?fp = nodes w ?fp" using n1 n2 n3 by simp
  have stale3: "\<not> entry_is_current e w3 ?fp ?today"
    using stale by (simp add: entry_is_current_def n)
  obtain w4 where p4: "print_lines menu_lines w3 = (Inr (), w4)" and n4: "nodes w4 = nodes w3"
    by (simp add: print_lines_def)
  obtain w5 where r5: "read_selection e w4 = (Inr selected, w5)" and n5: "nodes w5 = nodes w4"
    using read_selection_result [of e w4] sel by (cases "read_selection e w4") simp
  have nodir5: "\<not> isdir w5 ?fp" using nodir by (simp add: isdir_def n5 n4 n)
  obtain w6 where w6: "write_file e ?fp (entry_content ?today selected (now_footer e)) w5 =
      (Inr (), w6)"
    and n6: "nodes w6 ?fp = Some (File (entry_content ?today selected (now_footer e)) (stamp e ?fp))"
    using write_entry [OF wr nodir5] by blast
  have "create_journal_entry cfg e w =
      (Inr ?fp, w6\<lparr>logged := logged w6 @ [(INFO, ''Created journal entry: '' @ ?fp)]\<rparr>)"
    unfolding create_journal_entry_def Let_def
    by (simp add: seq_def d1 d2 d3 stale3 p4 r5 w6 logger_info_def ret_def)
  with n6 show ?thesis by simp
qed

lemma selection_loop_done_first:
  "lower (strip l) = ''done'' \<Longrightarrow> fst (selection_loop 1 [] (Line l # rest) []) = Inr []"
  by (simp add: selection_loop_done)

text \<open>
  Claim C8. When the entry of the day has to be written (it is not there, or is older than
  today's midnight), the calls to the file system succeed, and the first line typed is the
  word done, \<open>create_journal_entry\<close> returns the entry path and leaves there a file
  whose content is the date heading followed at once by the footer line with the time of
  generation: no prompt sub-heading stands between them.
\<close>

theorem zero_prompts_entry:
  assumes "valid_datetime (now_entry e)"
    and "\<forall>c \<in> set [MakeDirs (journals_dir cfg), MakeDirs (month_dir cfg (now_entry e)),
                    MakeDirs (day_dir cfg (now_entry e)),
                    WriteFile (file_path cfg (now_entry e))]. fault e c = None"
    and "\<not> entry_is_current e w (file_path cfg (now_entry e)) (now_entry e)"
    and "\<not> isdir w (file_path cfg (now_entry e))"
    and "stdin e = Line l # rest" and "lower (strip l) = ''done''"
  shows "fst (create_journal_entry cfg e w) = Inr (file_path cfg (now_entry e)) \<and>
    nodes (snd (create_journal_entry cfg e w)) (file_path cfg (now_entry e)) =
      Some (File (''# Journal Entry: '' @ date_str (now_entry e) @ ''\<newline>\<newline>'' @
                  ''\<newline>Created automatically by Journal Bot on '' @
                  datetime_str (now_footer e))
              (stamp e (file_path cfg (now_entry e))))"
proof -
  have sel: "fst (selection_loop 1 [] (stdin e) []) = Inr []"
    using selection_loop_done_first [OF assms(6), of rest] assms(5) by simp
  from assms(2) have f: "fault e (MakeDirs (journals_dir cfg)) = None"
    "fault e (MakeDirs (month_dir cfg (now_entry e))) = None"
    "fault e (MakeDirs (day_dir cfg (now_entry e))) = None"
    "fault e (WriteFile (file_path cfg (now_entry e))) = None"
    by simp_all
  from create_journal_entry_creates [OF entry_paths_distinct [OF assms(1)] f assms(3,4) sel]
  show ?thesis by (auto simp: entry_content_def)
qed

lemma example_footer: "datetime_str example_today = ''2024-03-05 21:07:09''"
  by (simp add: datetime_str_def eval_paths fmt_H_def fmt_M_def fmt_S_def example_today_def
      eval_strings str_nat.simps)

lemma example_world_stale:
  "\<not> entry_is_current x example_world
       ''/home/u/daily-journal/journals/march-2024/05/2024-03-05.md'' d"
  "\<not> isdir example_world ''/home/u/daily-journal/journals/march-2024/05/2024-03-05.md''"
  by (simp_all add: entry_is_current_def isdir_def example_world_def)

theorem zero_prompts_entry_witness:
  "valid_datetime (now_entry example_env_done) \<and>
   fault example_env_done (MakeDirs (journals_dir example_config)) = None \<and>
   fault example_env_done (MakeDirs (month_dir example_config (now_entry example_env_done))) = None \<and>
   fault example_env_done (MakeDirs (day_dir example_config (now_entry example_env_done))) = None \<and>
   fault example_env_done (WriteFile (file_path example_config (now_entry example_env_done))) = None \<and>
   \<not> entry_is_current example_env_done example_world
       (file_path example_config (now_entry example_env_done)) (now_entry example_env_done) \<and>
   \<not> isdir example_world (file_path example_config (now_entry example_env_done)) \<and>
   stdin example_env_done = Line ''done'' # [] \<and> lower (strip ''done'') = ''done'' \<and>
   fst (create_journal_entry example_config example_env_done example_world) =
     Inr ''/home/u/daily-journal/journals/march-2024/05/2024-03-05.md'' \<and>
   nodes (snd (create_journal_entry example_config example_env_done example_world))
     ''/home/u/daily-journal/journals/march-2024/05/2024-03-05.md'' =
     Some (File ''# Journal Entry: 2024-03-05\<newline>\<newline>\<newline>Created automatically by Journal Bot on 2024-03-05 21:07:09''
             507629)"
proof -
  have now: "now_entry example_env_done = example_today" "now_footer example_env_done = example_today"
    "stdin example_env_done = [Line ''done'']" "fault example_env_done = (\<lambda>c. None)"
    "stamp example_env_done = (\<lambda>p. 507629)"
    by (simp_all add: example_env_done_def example_env_def)
  have v: "valid_datetime (now_entry example_env_done)"
    by (simp add: now valid_example_today)
  have f: "\<forall>c \<in> set [MakeDirs (journals_dir example_config),
                MakeDirs (month_dir example_config (now_entry example_env_done)),
                MakeDirs (day_dir example_config (now_entry example_env_done)),
                WriteFile (file_path example_config (now_entry example_env_done))].
      fault example_env_done c = None"
    by (simp add: now)
  have st: "\<not> entry_is_current example_env_done example_world
       (file_path example_config (now_entry example_env_done)) (now_entry example_env_done)"
    "\<not> isdir example_world (file_path example_config (now_entry example_env_done))"
    by (simp_all add: now example_paths example_world_stale)
  have d: "lower (strip ''done'') = ''done''" by (simp add: eval_strings)
  note t = example_footer
  show ?thesis
    using v f st d zero_prompts_entry [OF v f st now(3) d]
    by (simp add: now example_paths t)
qed

text \<open>
  Claim C9. On 2024-03-05, with the lines 1, 3 and done typed, when the entry has to be
  written and the calls to the file system succeed, the entry path is
  \<open>journals/march-2024/05/2024-03-05.md\<close> under the repository root, and the file holds
  the heading, then the sub-heading "What went well today?", then the sub-heading "What am
  I grateful for today?", each with its placeholder, then the footer: the two prompts, in
  the order in which they were chosen.
\<close>

theorem entry_of_2024_03_05:
  assumes "year (now_entry e) = 2024 \<and> month (now_entry e) = 3 \<and> day (now_entry e) = 5"
    and "stdin e = [Line ''1'', Line ''3'', Line ''done'']"
    and "\<forall>c \<in> set [MakeDirs (journals_dir cfg), MakeDirs (month_dir cfg (now_entry e)),
                    MakeDirs (day_dir cfg (now_entry e)),
                    WriteFile (file_path cfg (now_entry e))]. fault e c = None"
    and "\<not> entry_is_current e w (file_path cfg (now_entry e)) (now_entry e)"
    and "\<not> isdir w (file_path cfg (now_entry e))"
  shows "file_path cfg (now_entry e) =
      REPO_PATH cfg @
      (if REPO_PATH cfg = [] \<or> last (REPO_PATH cfg) = CHR ''/'' then [] else ''/'') @
      ''journals/march-2024/05/2024-03-05.md'' \<and>
    fst (create_journal_entry cfg e w) = Inr (file_path cfg (now_entry e)) \<and>
    nodes (snd (create_journal_entry cfg e w)) (file_path cfg (now_entry e)) =
      Some (File (''# Journal Entry: 2024-03-05\<newline>\<newline>'' @
                  ''## What went well today?\<newline>\<newline>_Write your thoughts here..._\<newline>\<newline>'' @
                  ''## What am I grateful for today?\<newline>\<newline>_Write your thoughts here..._\<newline>\<newline>'' @
                  ''\<newline>Created automatically by Journal Bot on '' @
                  datetime_str (now_footer e))
              (stamp e (file_path cfg (now_entry e))))"
proof -
  have same: "same_calendar_date (now_entry e) example_today"
    using assms(1) by (simp add: same_calendar_date_def example_today_def)
  note paths = file_path_same_date(1-3) [OF same, of cfg] file_path_same_date(4) [OF same]
  have fp: "file_path cfg (now_entry e) = spec_entry_path (REPO_PATH cfg) example_today"
    by (simp add: paths file_path_spec [OF valid_example_today])
  have rel: "spec_relative_path example_today = ''journals/march-2024/05/2024-03-05.md''"
    by (simp add: spec_relative_path_def example_today_def LOWER_MONTH_NAMES_def
        four_digits_def two_digits_def digit_char_def char_of_eq_iff)
  have distinct: "file_path cfg (now_entry e) \<noteq> journals_dir cfg"
    "file_path cfg (now_entry e) \<noteq> month_dir cfg (now_entry e)"
    "file_path cfg (now_entry e) \<noteq> day_dir cfg (now_entry e)"
    using entry_paths_distinct [OF valid_example_today(1), of cfg] by (simp_all add: paths)
  have s: "strip ''1'' = ''1''" "strip ''3'' = ''3''" "strip ''done'' = ''done''"
    "lower ''done'' = ''done''" "isdigit ''1''" "isdigit ''3''" "py_int ''1'' = Inr 1"
    "py_int ''3'' = Inr 3"
    by (simp_all add: eval_strings)
  have sel: "fst (selection_loop 1 [] (stdin e) []) =
      Inr [''What went well today?'', ''What am I grateful for today?'']"
    by (simp add: assms(2) selection_loop_number s selection_loop_done JOURNAL_PROMPTS_def)
  from assms(3) have f: "fault e (MakeDirs (journals_dir cfg)) = None"
    "fault e (MakeDirs (month_dir cfg (now_entry e))) = None"
    "fault e (MakeDirs (day_dir cfg (now_entry e))) = None"
    "fault e (WriteFile (file_path cfg (now_entry e))) = None"
    by simp_all
  have ds: "date_str (now_entry e) = ''2024-03-05''"
    by (simp add: paths example_paths)
  have layout: "file_path cfg (now_entry e) =
      REPO_PATH cfg @
      (if REPO_PATH cfg = [] \<or> last (REPO_PATH cfg) = CHR ''/'' then [] else ''/'') @
      ''journals/march-2024/05/2024-03-05.md''"
    by (simp only: fp spec_entry_path_def rel)
  from create_journal_entry_creates [OF distinct f assms(4,5) sel]
  have "fst (create_journal_entry cfg e w) = Inr (file_path cfg (now_entry e)) \<and>
    nodes (snd (create_journal_entry cfg e w)) (file_path cfg (now_entry e)) =
      Some (File (entry_content (now_entry e)
                    [''What went well today?'', ''What am I grateful for today?'']
                    (now_footer e))
              (stamp e (file_path cfg (now_entry e))))"
    by auto
  then show ?thesis
    using layout by (simp add: entry_content_def ds)
qed

theorem entry_of_2024_03_05_witness:
  "(year (now_entry example_env) = 2024 \<and> month (now_entry example_env) = 3 \<and>
    day (now_entry example_env) = 5) \<and>
   stdin example_env = [Line ''1'', Line ''3'', Line ''done''] \<and>
   fault example_env (MakeDirs (journals_dir example_config)) = None \<and>
   fault example_env (MakeDirs (month_dir example_config (now_entry example_env))) = None \<and>
   fault example_env (MakeDirs (day_dir example_config (now_entry example_env))) = None \<and>
   fault example_env (WriteFile (file_path example_config (now_entry example_env))) = None \<and>
   \<not> entry_is_current example_env example_world
       (file_path example_config (now_entry example_env)) (now_entry example_env) \<and>
   \<not> isdir example_world (file_path example_config (now_entry example_env)) \<and>
   fst (create_journal_entry example_config example_env example_world) =
     Inr ''/home/u/daily-journal/journals/march-2024/05/2024-03-05.md'' \<and>
   nodes (snd (create_journal_entry example_config example_env example_world))
     ''/home/u/daily-journal/journals/march-2024/05/2024-03-05.md'' =
     Some (File ''# Journal Entry: 2024-03-05\<newline>\<newline>## What went well today?\<newline>\<newline>_Write your thoughts here..._\<newline>\<newline>## What am I grateful for today?\<newline>\<newline>_Write your thoughts here..._\<newline>\<newline>\<newline>Created automatically by Journal Bot on 2024-03-05 21:07:09''
             507629)"
proof -
  have now: "now_entry example_env = example_today" "now_footer example_env = example_today"
    "stdin example_env = [Line ''1'', Line ''3'', Line ''done'']"
    "fault example_env = (\<lambda>c. None)" "stamp example_env = (\<lambda>p. 507629)"
    by (simp_all add: example_env_def)
  have d: "year (now_entry example_env) = 2024 \<and> month (now_entry example_env) = 3 \<and>
    day (now_entry example_env) = 5"
    by (simp add: now example_today_def)
  have f: "\<forall>c \<in> set [MakeDirs (journals_dir example_config),
                MakeDirs (month_dir example_config (now_entry example_env)),
                MakeDirs (day_dir example_config (now_entry example_env)),
                WriteFile (file_path example_config (now_entry example_env))].
      fault example_env c = None"
    by (simp add: now)
  have st: "\<not> entry_is_current example_env example_world
       (file_path example_config (now_entry example_env)) (now_entry example_env)"
    "\<not> isdir example_world (file_path example_config (now_entry example_env))"
    by (simp_all add: now example_paths example_world_stale)
  note t = example_footer
  show ?thesis
    using d f st entry_of_2024_03_05 [OF d now(3) f st]
    by (simp add: now example_paths t)
qed

section \<open>Publishing the entry\<close>

lemma relative_to_entry:
  assumes "valid_datetime D"
  shows "relative_to (file_path cfg D) (REPO_PATH cfg) = Inr (entry_relative_path D)"
  by (simp add: file_path_relative [OF assms] relative_to_def)

lemma try_except_Inr:
  "try_except m h w = (Inr a, w') \<Longrightarrow>
   m w = (Inr a, w') \<or> (\<exists>msg w1. m w = (Inl (Exception msg), w1) \<and> h msg w1 = (Inr a, w'))"
  by (auto simp: try_except_def split: prod.splits sum.splits exn.splits)

lemma git_open_Inr: "git_open e path w = (Inr r, w') \<Longrightarrow> r = Repo path"
  by (auto simp: git_open_def external_def Let_def split: option.splits if_splits)

lemma setup_repo_handle:
  assumes "setup_repo cfg e w = (Inr (Some r), w1)"
  shows "r = Repo (REPO_PATH cfg)"
proof -
  from try_except_Inr [OF assms [unfolded setup_repo_def]]
  have "seq (setup_repo_body cfg e) (\<lambda>r. ret (Some r)) w = (Inr (Some r), w1)"
    by (auto simp: seq_def ret_def logger_error_def)
  then obtain r' w' where b: "setup_repo_body cfg e w = (Inr r', w')"
    and "ret (Some r') w' = (Inr (Some r), w1)"
    by (blast dest: seq_Inr)
  then have r: "r' = r" by (simp add: ret_def)
  from b obtain u w0 where "git_open e (REPO_PATH cfg) w0 = (Inr r', w')"
    unfolding setup_repo_body_def by (blast dest: seq_Inr)
  with r show ?thesis by (simp add: git_open_Inr)
qed

lemma git_add_Inr: "git_add e r p w = (Inr u, w') \<Longrightarrow> git w' \<noteq> None \<and> logged w' = logged w"
  by (auto simp: git_add_def external_def with_repo_def Let_def
      split: option.splits node.splits)

lemma commit_to_github_staged:
  assumes valid: "valid_datetime (now_entry e)"
    and handle: "setup_repo cfg e w = (Inr (Some repo), w1)"
    and entry: "create_journal_entry cfg e w1 = (Inr entry_path, w2)"
    and add: "git_add e repo (entry_relative_path (now_entry e)) w2 = (Inr (), w3)"
  shows "commit_to_github_body cfg e w =
    seq (git_diff_staged e) (\<lambda>d.
     if d = [] then seq (logger_info ''No changes to commit'') (\<lambda>_. ret False)
     else
       (let today = date_str (now_commit e);
            commit_message = ''Add journal entry for '' @ today in
        seq (git_commit e commit_message) (\<lambda>_.
        seq (git_remotes e) (\<lambda>names.
        seq (if ''origin'' \<in> set names
             then seq (logger_info ''Pushing changes to remote repository...'')
                    (\<lambda>_. git_push e ''origin'' ''main'')
             else seq (logger_info ''No remote repository configured. Skipping push.'')
                    (\<lambda>_. logger_info
                       ''To push manually, set up a remote repository and run: git push -u origin main''))
          (\<lambda>_.
        seq (logger_info (''Successfully committed journal entry for '' @ today)) (\<lambda>_.
        ret True)))))) w3"
proof -
  have p: "entry_path = file_path cfg (now_entry e)"
    using create_journal_entry_Inr(1) [OF entry] .
  have r: "working_dir repo = REPO_PATH cfg"
    using setup_repo_handle [OF handle] by simp
  have rel: "relative_to entry_path (working_dir repo) = Inr (entry_relative_path (now_entry e))"
    by (simp add: p r relative_to_entry [OF valid])
  show ?thesis
    by (simp add: commit_to_github_body_def publish_def seq_def handle entry rel add)
qed


lemma example_second_run_setup:
  "setup_repo example_config example_env_nodiff example_world_after =
     (Inr (Some (Repo ''/home/u/daily-journal'')),
      example_world_after\<lparr>trace := [GitOpen ''/home/u/daily-journal'']\<rparr>)"
  by (simp add: setup_repo_def setup_repo_body_def eval_io eval_example path_join_def empty_repo_def)

lemma example_second_run_entry:
  "create_journal_entry example_config example_env_nodiff
     (example_world_after\<lparr>trace := [GitOpen ''/home/u/daily-journal'']\<rparr>) =
     (Inr ''/home/u/daily-journal/journals/march-2024/05/2024-03-05.md'',
      example_world_after\<lparr>trace := [GitOpen ''/home/u/daily-journal''],
        logged := [(INFO, ''Journal entry for 2024-03-05 already exists. Skipping creation.'')]\<rparr>)"
proof -
  have later: "now_entry example_env_nodiff = example_today\<lparr>hour := 23, minute := 30\<rparr>"
    by (simp add: example_env_nodiff_def example_env_later_def example_env_def)
  have same: "same_calendar_date (example_today\<lparr>hour := 23, minute := 30\<rparr>) example_today"
    by (simp add: same_calendar_date_def)
  note paths = file_path_same_date(1-3) [OF same, of example_config]
    file_path_same_date(4) [OF same]
  have "path_exists (example_world_after\<lparr>trace := [GitOpen ''/home/u/daily-journal'']\<rparr>)
      (journals_dir example_config)"
    "path_exists (example_world_after\<lparr>trace := [GitOpen ''/home/u/daily-journal'']\<rparr>)
      (month_dir example_config (now_entry example_env_nodiff))"
    "path_exists (example_world_after\<lparr>trace := [GitOpen ''/home/u/daily-journal'']\<rparr>)
      (day_dir example_config (now_entry example_env_nodiff))"
    "entry_is_current example_env_nodiff
      (example_world_after\<lparr>trace := [GitOpen ''/home/u/daily-journal'']\<rparr>)
      (file_path example_config (now_entry example_env_nodiff)) (now_entry example_env_nodiff)"
    by (simp_all add: later paths example_paths)
      (simp_all add: path_exists_def entry_is_current_def example_world_after_def
        example_env_nodiff_def example_env_later_def example_env_def example_today_def
        midnight_def)
  from create_journal_entry_skip [OF this] show ?thesis
    by (simp add: later paths example_paths example_world_after_def)
qed

lemma example_relative_path:
  "entry_relative_path (example_today\<lparr>hour := h, minute := m\<rparr>) =
     ''journals/march-2024/05/2024-03-05.md''"
  by (simp add: entry_relative_path_def example_today_def eval_paths eval_strings
      str_nat.simps)

text \<open>
  Claim C3. In a run that reaches the staged diff (the repository handle was obtained, the
  entry path was returned and staging it succeeded), when \<open>git diff --staged\<close> prints
  nothing, \<open>commit_to_github\<close> returns \<open>False\<close>; after the staging it makes the call
  for the diff and no other, so no commit is attempted, and it adds to the log the one line
  "No changes to commit", at level info.
\<close>

theorem no_staged_changes:
  assumes "valid_datetime (now_entry e)"
    and "setup_repo cfg e w = (Inr (Some repo), w1)"
    and "create_journal_entry cfg e w1 = (Inr entry_path, w2)"
    and "git_add e repo (entry_relative_path (now_entry e)) w2 = (Inr (), w3)"
    and "fault e GitDiffStaged = None" and "diff_staged e = []"
  shows "commit_to_github cfg e w =
     (Inr False,
      w3\<lparr>trace := trace w3 @ [GitDiffStaged],
         logged := logged w3 @ [(INFO, ''No changes to commit'')]\<rparr>)"
  unfolding commit_to_github_def
  by (simp add: try_except_def commit_to_github_staged [OF assms(1-4)] seq_def
      git_diff_staged_def external_def ret_def logger_info_def assms(5,6))

theorem no_staged_changes_witness:
  "valid_datetime (now_entry example_env_nodiff) \<and>
   setup_repo example_config example_env_nodiff example_world_after =
     (Inr (Some (Repo ''/home/u/daily-journal'')),
      example_world_after\<lparr>trace := [GitOpen ''/home/u/daily-journal'']\<rparr>) \<and>
   fault example_env_nodiff GitDiffStaged = None \<and> diff_staged example_env_nodiff = [] \<and>
   fst (commit_to_github example_config example_env_nodiff example_world_after) = Inr False \<and>
   trace (snd (commit_to_github example_config example_env_nodiff example_world_after)) =
     [GitOpen ''/home/u/daily-journal'', GitAdd ''journals/march-2024/05/2024-03-05.md'',
      GitDiffStaged] \<and>
   logged (snd (commit_to_github example_config example_env_nodiff example_world_after)) =
     [(INFO, ''Journal entry for 2024-03-05 already exists. Skipping creation.''),
      (INFO, ''No changes to commit'')] \<and>
   commits_of (snd (commit_to_github example_config example_env_nodiff example_world_after)) = []"
proof -
  let ?w1 = "example_world_after\<lparr>trace := [GitOpen ''/home/u/daily-journal'']\<rparr>"
  let ?w2 = "?w1\<lparr>logged :=
      [(INFO, ''Journal entry for 2024-03-05 already exists. Skipping creation.'')]\<rparr>"
  let ?rel = "''journals/march-2024/05/2024-03-05.md''"
  have now: "now_entry example_env_nodiff = example_today\<lparr>hour := 23, minute := 30\<rparr>"
    "fault example_env_nodiff = (\<lambda>c. None)" "diff_staged example_env_nodiff = []"
    by (simp_all add: example_env_nodiff_def example_env_later_def example_env_def)
  have v: "valid_datetime (now_entry example_env_nodiff)"
    by (simp add: now valid_datetime_def example_today_def)
  have entry: "create_journal_entry example_config example_env_nodiff ?w1 =
      (Inr ''/home/u/daily-journal/journals/march-2024/05/2024-03-05.md'', ?w2)"
    using example_second_run_entry by simp
  have add: "git_add example_env_nodiff (Repo ''/home/u/daily-journal'')
      (entry_relative_path (now_entry example_env_nodiff)) ?w2 =
      (Inr (), ?w2\<lparr>trace := [GitOpen ''/home/u/daily-journal'', GitAdd ?rel],
         git := Some (empty_repo\<lparr>index := [?rel \<mapsto> ''# Journal Entry: 2024-03-05'']\<rparr>)\<rparr>)"
    by (simp add: now(1) example_relative_path)
      (simp add: git_add_def external_def with_repo_def now path_join_def
        example_world_after_def empty_repo_def)
  have f: "fault example_env_nodiff GitDiffStaged = None" by (simp add: now)
  show ?thesis
    using v example_second_run_setup f now(3)
      no_staged_changes [OF v example_second_run_setup entry add f now(3)]
    by (simp add: commits_of_def empty_repo_def example_world_after_def)
qed

text \<open>
  Claim C4. In a run that reaches the staged diff, when the diff is not empty, the commit
  succeeds and the repository has no remote named origin, \<open>commit_to_github\<close> makes no
  call to push and returns \<open>True\<close>: after the staging it calls for the diff, the commit
  and the list of remotes only, the pushes of the repository stay as they were, one commit
  is added, and the three lines it logs are at level info.
\<close>

theorem no_origin_remote:
  assumes "valid_datetime (now_entry e)"
    and "setup_repo cfg e w = (Inr (Some repo), w1)"
    and "create_journal_entry cfg e w1 = (Inr entry_path, w2)"
    and "git_add e repo (entry_relative_path (now_entry e)) w2 = (Inr (), w3)"
    and "fault e GitDiffStaged = None" and "diff_staged e \<noteq> []"
    and "fault e (GitCommit (''Add journal entry for '' @ date_str (now_commit e))) = None"
    and "fault e GitRemotes = None"
    and "''origin'' \<notin> set (remotes_of w3)"
  shows "fst (commit_to_github cfg e w) = Inr True \<and>
    trace (snd (commit_to_github cfg e w)) =
      trace w3 @ [GitDiffStaged,
                  GitCommit (''Add journal entry for '' @ date_str (now_commit e)),
                  GitRemotes] \<and>
    pushes_of (snd (commit_to_github cfg e w)) = pushes_of w3 \<and>
    (\<exists>tree. commits_of (snd (commit_to_github cfg e w)) =
       commits_of w3 @ [(''Add journal entry for '' @ date_str (now_commit e), tree)]) \<and>
    logged (snd (commit_to_github cfg e w)) =
      logged w3 @
      [(INFO, ''No remote repository configured. Skipping push.''),
       (INFO, ''To push manually, set up a remote repository and run: git push -u origin main''),
       (INFO, ''Successfully committed journal entry for '' @ date_str (now_commit e))]"
proof -
  from git_add_Inr [OF assms(4)] obtain g where g: "git w3 = Some g" by auto
  with assms(9) have r: "''origin'' \<notin> set (remotes g)" by (simp add: remotes_of_def)
  have "commit_to_github cfg e w =
    (Inr True,
     w3\<lparr>trace := trace w3 @ [GitDiffStaged,
                  GitCommit (''Add journal entry for '' @ date_str (now_commit e)),
                  GitRemotes],
        git := Some (g\<lparr>commits := commits g @
                 [(''Add journal entry for '' @ date_str (now_commit e), index g)]\<rparr>),
        logged := logged w3 @
      [(INFO, ''No remote repository configured. Skipping push.''),
       (INFO, ''To push manually, set up a remote repository and run: git push -u origin main''),
       (INFO, ''Successfully committed journal entry for '' @ date_str (now_commit e))]\<rparr>)"
    unfolding commit_to_github_def
    using assms(5-8) g r
    by (simp add: try_except_def commit_to_github_staged [OF assms(1-4)] seq_def
        git_diff_staged_def external_def ret_def logger_info_def git_commit_def with_repo_def
        git_remotes_def Let_def)
  then show ?thesis by (simp add: pushes_of_def commits_of_def g)
qed

lemma example_repo_setup:
  "setup_repo example_config example_env_done example_world_repo =
     (Inr (Some (Repo ''/home/u/daily-journal'')),
      example_world_repo\<lparr>trace := [GitOpen ''/home/u/daily-journal'']\<rparr>)"
  by (simp add: setup_repo_def setup_repo_body_def eval_io eval_example path_join_def empty_repo_def)

lemma example_repo_entry:
  "fst (create_journal_entry example_config example_env_done
     (example_world_repo\<lparr>trace := [GitOpen ''/home/u/daily-journal'']\<rparr>)) =
     Inr ''/home/u/daily-journal/journals/march-2024/05/2024-03-05.md''"
  "fst (git_add example_env_done (Repo ''/home/u/daily-journal'')
          ''journals/march-2024/05/2024-03-05.md''
          (snd (create_journal_entry example_config example_env_done
                 (example_world_repo\<lparr>trace := [GitOpen ''/home/u/daily-journal'']\<rparr>)))) = Inr ()"
  "remotes_of (snd (git_add example_env_done (Repo ''/home/u/daily-journal'')
          ''journals/march-2024/05/2024-03-05.md''
          (snd (create_journal_entry example_config example_env_done
                 (example_world_repo\<lparr>trace := [GitOpen ''/home/u/daily-journal'']\<rparr>))))) = []"
  "pushes_of (snd (git_add example_env_done (Repo ''/home/u/daily-journal'')
          ''journals/march-2024/05/2024-03-05.md''
          (snd (create_journal_entry example_config example_env_done
                 (example_world_repo\<lparr>trace := [GitOpen ''/home/u/daily-journal'']\<rparr>))))) = []"
  by (simp_all add: create_journal_entry_def ensure_dir_def read_selection_def
      entry_is_current_def eval_example eval_paths eval_strings eval_io Let_def
      selection_loop.simps str_nat.simps prompt_text_def remotes_of_def pushes_of_def
      empty_repo_def)

theorem no_origin_remote_witness:
  "valid_datetime (now_entry example_env_done) \<and>
   setup_repo example_config example_env_done example_world_repo =
     (Inr (Some (Repo ''/home/u/daily-journal'')),
      example_world_repo\<lparr>trace := [GitOpen ''/home/u/daily-journal'']\<rparr>) \<and>
   fault example_env_done GitDiffStaged = None \<and> diff_staged example_env_done \<noteq> [] \<and>
   fault example_env_done
     (GitCommit (''Add journal entry for '' @ date_str (now_commit example_env_done))) = None \<and>
   fault example_env_done GitRemotes = None \<and>
   fst (commit_to_github example_config example_env_done example_world_repo) = Inr True \<and>
   pushes_of (snd (commit_to_github example_config example_env_done example_world_repo)) = []"
proof -
  let ?w1 = "example_world_repo\<lparr>trace := [GitOpen ''/home/u/daily-journal'']\<rparr>"
  let ?w2 = "snd (create_journal_entry example_config example_env_done ?w1)"
  let ?rel = "''journals/march-2024/05/2024-03-05.md''"
  let ?w3 = "snd (git_add example_env_done (Repo ''/home/u/daily-journal'') ?rel ?w2)"
  have now: "now_entry example_env_done = example_today"
    "fault example_env_done = (\<lambda>c. None)" "diff_staged example_env_done \<noteq> []"
    by (simp_all add: example_env_done_def example_env_def)
  have v: "valid_datetime (now_entry example_env_done)"
    by (simp add: now valid_example_today)
  have entry: "create_journal_entry example_config example_env_done ?w1 =
      (Inr ''/home/u/daily-journal/journals/march-2024/05/2024-03-05.md'', ?w2)"
    using example_repo_entry(1) by (simp add: prod_eq_iff)
  have rel: "entry_relative_path (now_entry example_env_done) = ?rel"
    using example_relative_path [where h = 21 and m = 7] by (simp add: now example_today_def)
  have add: "git_add example_env_done (Repo ''/home/u/daily-journal'')
      (entry_relative_path (now_entry example_env_done)) ?w2 = (Inr (), ?w3)"
    using example_repo_entry(2) by (simp add: rel prod_eq_iff)
  have f: "fault example_env_done GitDiffStaged = None"
    "fault example_env_done
       (GitCommit (''Add journal entry for '' @ date_str (now_commit example_env_done))) = None"
    "fault example_env_done GitRemotes = None"
    by (simp_all add: now)
  have r: "''origin'' \<notin> set (remotes_of ?w3)"
    by (simp add: example_repo_entry(3))
  have p: "pushes_of ?w3 = []"
    by (simp add: example_repo_entry(4))
  show ?thesis
    using v example_repo_setup f now(3)
      no_origin_remote [OF v example_repo_setup entry add f(1) now(3) f(2,3) r]
    by (simp add: p)
qed

section \<open>Setting up the repository\<close>

lemma git_paths_distinct:
  "path_join base ''.git'' \<noteq> path_join base ''README.md''"
  by (simp add: path_join_def)

lemma setup_repo_new_readme:
  assumes "\<not> isdir w (path_join (REPO_PATH cfg) ''.git'')"
    and "\<not> path_exists w (path_join (REPO_PATH cfg) ''README.md'')"
    and "fault e (GitInit (REPO_PATH cfg)) = None" and "fault e GitConfigWriter = None"
    and "fault e (GitSetValue ''user'' ''name'' (GITHUB_USERNAME cfg)) = None"
    and "fault e (GitSetValue ''user'' ''email'' (GITHUB_EMAIL cfg)) = None"
    and "fault e (WriteFile (path_join (REPO_PATH cfg) ''README.md'')) = None"
    and "fault e (GitAdd ''README.md'') = None"
    and "fault e (GitCommit ''Initial commit: Add README'') = None"
    and "fault e (GitOpen (REPO_PATH cfg)) = None"
  shows "fst (setup_repo cfg e w) = Inr (Some (Repo (REPO_PATH cfg)))"
    and "trace (snd (setup_repo cfg e w)) =
      trace w @ [GitInit (REPO_PATH cfg), GitConfigWriter,
                 GitSetValue ''user'' ''name'' (GITHUB_USERNAME cfg),
                 GitSetValue ''user'' ''email'' (GITHUB_EMAIL cfg),
                 WriteFile (path_join (REPO_PATH cfg) ''README.md''), GitAdd ''README.md'',
                 GitCommit ''Initial commit: Add README'', GitOpen (REPO_PATH cfg)]"
    and "config_of (snd (setup_repo cfg e w)) (''user'', ''name'') = Some (GITHUB_USERNAME cfg)"
    and "config_of (snd (setup_repo cfg e w)) (''user'', ''email'') = Some (GITHUB_EMAIL cfg)"
    and "nodes (snd (setup_repo cfg e w)) (path_join (REPO_PATH cfg) ''README.md'') =
      Some (File README_TEXT (stamp e (path_join (REPO_PATH cfg) ''README.md'')))"
    and "\<exists>tree. commits_of (snd (setup_repo cfg e w)) =
      commits_of w @ [(''Initial commit: Add README'', tree)] \<and>
      tree ''README.md'' = Some README_TEXT"
  using assms git_paths_distinct [of "REPO_PATH cfg"]
  by (auto simp: setup_repo_def setup_repo_body_def eval_io Let_def config_of_def
      commits_of_def empty_repo_def split: option.splits node.splits)


lemma setup_repo_kept_readme:
  assumes "\<not> isdir w (path_join (REPO_PATH cfg) ''.git'')"
    and "path_exists w (path_join (REPO_PATH cfg) ''README.md'')"
    and "fault e (GitInit (REPO_PATH cfg)) = None" and "fault e GitConfigWriter = None"
    and "fault e (GitSetValue ''user'' ''name'' (GITHUB_USERNAME cfg)) = None"
    and "fault e (GitSetValue ''user'' ''email'' (GITHUB_EMAIL cfg)) = None"
    and "fault e (GitOpen (REPO_PATH cfg)) = None"
  shows "fst (setup_repo cfg e w) = Inr (Some (Repo (REPO_PATH cfg)))"
    and "trace (snd (setup_repo cfg e w)) =
      trace w @ [GitInit (REPO_PATH cfg), GitConfigWriter,
                 GitSetValue ''user'' ''name'' (GITHUB_USERNAME cfg),
                 GitSetValue ''user'' ''email'' (GITHUB_EMAIL cfg), GitOpen (REPO_PATH cfg)]"
    and "config_of (snd (setup_repo cfg e w)) (''user'', ''name'') = Some (GITHUB_USERNAME cfg)"
    and "config_of (snd (setup_repo cfg e w)) (''user'', ''email'') = Some (GITHUB_EMAIL cfg)"
    and "nodes (snd (setup_repo cfg e w)) (path_join (REPO_PATH cfg) ''README.md'') =
      nodes w (path_join (REPO_PATH cfg) ''README.md'')"
    and "commits_of (snd (setup_repo cfg e w)) = commits_of w"
  using assms git_paths_distinct [of "REPO_PATH cfg"]
  by (auto simp: setup_repo_def setup_repo_body_def eval_io Let_def config_of_def
      commits_of_def empty_repo_def split: option.splits node.splits)

text \<open>
  Claim C5, as amended. When there is no \<open>.git\<close> directory at the repository path and
  the calls to the outside succeed, \<open>setup_repo\<close> initializes a repository, sets the
  user name and the email from the configuration and returns a handle. When moreover no
  \<open>README.md\<close> exists, it writes the fixed text to \<open>README.md\<close>, stages it and makes
  the commit "Initial commit: Add README", whose tree holds that text. When a
  \<open>README.md\<close> exists already, it is left as it is and no commit is made.
\<close>

theorem setup_repo_initializes:
  assumes "\<not> isdir w (path_join (REPO_PATH cfg) ''.git'')"
    and "\<forall>c \<in> set [GitInit (REPO_PATH cfg), GitConfigWriter,
                    GitSetValue ''user'' ''name'' (GITHUB_USERNAME cfg),
                    GitSetValue ''user'' ''email'' (GITHUB_EMAIL cfg),
                    WriteFile (path_join (REPO_PATH cfg) ''README.md''), GitAdd ''README.md'',
                    GitCommit ''Initial commit: Add README'', GitOpen (REPO_PATH cfg)].
           fault e c = None"
  shows "fst (setup_repo cfg e w) = Inr (Some (Repo (REPO_PATH cfg))) \<and>
    config_of (snd (setup_repo cfg e w)) (''user'', ''name'') = Some (GITHUB_USERNAME cfg) \<and>
    config_of (snd (setup_repo cfg e w)) (''user'', ''email'') = Some (GITHUB_EMAIL cfg) \<and>
    (\<not> path_exists w (path_join (REPO_PATH cfg) ''README.md'') \<longrightarrow>
       trace (snd (setup_repo cfg e w)) =
         trace w @ [GitInit (REPO_PATH cfg), GitConfigWriter,
                    GitSetValue ''user'' ''name'' (GITHUB_USERNAME cfg),
                    GitSetValue ''user'' ''email'' (GITHUB_EMAIL cfg),
                    WriteFile (path_join (REPO_PATH cfg) ''README.md''), GitAdd ''README.md'',
                    GitCommit ''Initial commit: Add README'', GitOpen (REPO_PATH cfg)] \<and>
       nodes (snd (setup_repo cfg e w)) (path_join (REPO_PATH cfg) ''README.md'') =
         Some (File README_TEXT (stamp e (path_join (REPO_PATH cfg) ''README.md''))) \<and>
       (\<exists>tree. commits_of (snd (setup_repo cfg e w)) =
          commits_of w @ [(''Initial commit: Add README'', tree)] \<and>
          tree ''README.md'' = Some README_TEXT)) \<and>
    (path_exists w (path_join (REPO_PATH cfg) ''README.md'') \<longrightarrow>
       trace (snd (setup_repo cfg e w)) =
         trace w @ [GitInit (REPO_PATH cfg), GitConfigWriter,
                    GitSetValue ''user'' ''name'' (GITHUB_USERNAME cfg),
                    GitSetValue ''user'' ''email'' (GITHUB_EMAIL cfg), GitOpen (REPO_PATH cfg)] \<and>
       nodes (snd (setup_repo cfg e w)) (path_join (REPO_PATH cfg) ''README.md'') =
         nodes w (path_join (REPO_PATH cfg) ''README.md'') \<and>
       commits_of (snd (setup_repo cfg e w)) = commits_of w)"
proof -
  from assms(2) have f: "fault e (GitInit (REPO_PATH cfg)) = None" "fault e GitConfigWriter = None"
    "fault e (GitSetValue ''user'' ''name'' (GITHUB_USERNAME cfg)) = None"
    "fault e (GitSetValue ''user'' ''email'' (GITHUB_EMAIL cfg)) = None"
    "fault e (WriteFile (path_join (REPO_PATH cfg) ''README.md'')) = None"
    "fault e (GitAdd ''README.md'') = None"
    "fault e (GitCommit ''Initial commit: Add README'') = None"
    "fault e (GitOpen (REPO_PATH cfg)) = None"
    by simp_all
  show ?thesis
  proof (cases "path_exists w (path_join (REPO_PATH cfg) ''README.md'')")
    case True
    from setup_repo_kept_readme [OF assms(1) True f(1-4,8)] True show ?thesis by simp
  next
    case False
    from setup_repo_new_readme [OF assms(1) False f] False show ?thesis by simp
  qed
qed

lemma example_setup_facts:
  "path_join (REPO_PATH example_config) ''.git'' = ''/home/u/daily-journal/.git''"
  "path_join (REPO_PATH example_config) ''README.md'' = ''/home/u/daily-journal/README.md''"
  "REPO_PATH example_config = ''/home/u/daily-journal''"
  "path_join ''/home/u/daily-journal'' ''.git'' = ''/home/u/daily-journal/.git''"
  "path_join ''/home/u/daily-journal'' ''README.md'' = ''/home/u/daily-journal/README.md''"
  "GITHUB_USERNAME example_config = Some ''u''"
  "GITHUB_EMAIL example_config = Some ''u@example.org''"
  "fault example_env = (\<lambda>c. None)" "stamp example_env = (\<lambda>p. 507629)"
  "\<not> isdir example_world ''/home/u/daily-journal/.git''"
  "\<not> isdir example_world_readme ''/home/u/daily-journal/.git''"
  "\<not> path_exists example_world ''/home/u/daily-journal/README.md''"
  "path_exists example_world_readme ''/home/u/daily-journal/README.md''"
  "nodes example_world_readme ''/home/u/daily-journal/README.md'' =
     Some (File ''# My notes'' 0)"
  "commits_of example_world = []" "commits_of example_world_readme = []"
  "trace example_world = []" "trace example_world_readme = []"
  by (simp_all add: eval_example path_join_def isdir_def path_exists_def commits_of_def)

theorem setup_repo_initializes_witness:
  "\<not> isdir example_world (path_join (REPO_PATH example_config) ''.git'') \<and>
   \<not> path_exists example_world (path_join (REPO_PATH example_config) ''README.md'') \<and>
   fault example_env (GitInit (REPO_PATH example_config)) = None \<and>
   fst (setup_repo example_config example_env example_world) =
     Inr (Some (Repo ''/home/u/daily-journal'')) \<and>
   config_of (snd (setup_repo example_config example_env example_world)) (''user'', ''name'') =
     Some (Some ''u'') \<and>
   config_of (snd (setup_repo example_config example_env example_world)) (''user'', ''email'') =
     Some (Some ''u@example.org'') \<and>
   nodes (snd (setup_repo example_config example_env example_world))
     ''/home/u/daily-journal/README.md'' = Some (File README_TEXT 507629) \<and>
   trace (snd (setup_repo example_config example_env example_world)) =
     [GitInit ''/home/u/daily-journal'', GitConfigWriter,
      GitSetValue ''user'' ''name'' (Some ''u''),
      GitSetValue ''user'' ''email'' (Some ''u@example.org''),
      WriteFile ''/home/u/daily-journal/README.md'', GitAdd ''README.md'',
      GitCommit ''Initial commit: Add README'', GitOpen ''/home/u/daily-journal''] \<and>
   \<not> isdir example_world_readme (path_join (REPO_PATH example_config) ''.git'') \<and>
   path_exists example_world_readme (path_join (REPO_PATH example_config) ''README.md'') \<and>
   commits_of (snd (setup_repo example_config example_env example_world_readme)) = []"
proof -
  note x = example_setup_facts
  have d: "\<not> isdir example_world (path_join (REPO_PATH example_config) ''.git'')"
    "\<not> isdir example_world_readme (path_join (REPO_PATH example_config) ''.git'')"
    by (simp_all add: x)
  have f: "\<forall>c \<in> set [GitInit (REPO_PATH example_config), GitConfigWriter,
                    GitSetValue ''user'' ''name'' (GITHUB_USERNAME example_config),
                    GitSetValue ''user'' ''email'' (GITHUB_EMAIL example_config),
                    WriteFile (path_join (REPO_PATH example_config) ''README.md''),
                    GitAdd ''README.md'',
                    GitCommit ''Initial commit: Add README'', GitOpen (REPO_PATH example_config)].
           fault example_env c = None"
    by (simp add: x)
  show ?thesis
    using setup_repo_initializes [OF d(1) f] setup_repo_initializes [OF d(2) f]
    by (simp add: x)
qed

lemma example_readme_run:
  "fst (setup_repo example_config example_env example_world_readme) =
     Inr (Some (Repo ''/home/u/daily-journal''))"
  "nodes (snd (setup_repo example_config example_env example_world_readme))
     ''/home/u/daily-journal/README.md'' = Some (File ''# My notes'' 0)"
  "commits_of (snd (setup_repo example_config example_env example_world_readme)) = []"
  "trace (snd (setup_repo example_config example_env example_world_readme)) =
     [GitInit ''/home/u/daily-journal'', GitConfigWriter,
      GitSetValue ''user'' ''name'' (Some ''u''),
      GitSetValue ''user'' ''email'' (Some ''u@example.org''),
      GitOpen ''/home/u/daily-journal'']"
  by (simp_all add: setup_repo_def setup_repo_body_def eval_io eval_example path_join_def
      commits_of_def empty_repo_def)

text \<open>
  Claim C5 as it was stated fails where a \<open>README.md\<close> is kept already in a directory
  without a repository: the repository is initialized, yet the file keeps its own text, and
  neither a write nor a commit is among the calls made.
\<close>

theorem setup_repo_readme_counterexample:
  "\<not> isdir example_world_readme (path_join (REPO_PATH example_config) ''.git'') \<and>
   fst (setup_repo example_config example_env example_world_readme) =
     Inr (Some (Repo ''/home/u/daily-journal'')) \<and>
   nodes (snd (setup_repo example_config example_env example_world_readme))
     ''/home/u/daily-journal/README.md'' = Some (File ''# My notes'' 0) \<and>
   ''# My notes'' \<noteq> README_TEXT \<and>
   commits_of (snd (setup_repo example_config example_env example_world_readme)) = [] \<and>
   trace (snd (setup_repo example_config example_env example_world_readme)) =
     [GitInit ''/home/u/daily-journal'', GitConfigWriter,
      GitSetValue ''user'' ''name'' (Some ''u''),
      GitSetValue ''user'' ''email'' (Some ''u@example.org''),
      GitOpen ''/home/u/daily-journal'']"
  by (simp add: example_readme_run example_setup_facts README_TEXT_def)

section \<open>The two catch points\<close>

lemma try_except_caught:
  "m w = (Inl (Exception msg), w1) \<Longrightarrow> try_except m h w = h msg w1"
  by (simp add: try_except_def)

lemma try_except_never_Exception:
  assumes "\<And>msg w1. fst (h msg w1) \<noteq> Inl (Exception x)"
  shows "fst (try_except m h w) \<noteq> Inl (Exception x)"
  using assms
  by (auto simp: try_except_def split: prod.splits sum.splits exn.splits)

lemma example_interrupt_run:
  "fst (commit_to_github example_config example_env_interrupt example_world_repo) =
     Inl KeyboardInterrupt"
  by (simp add: commit_to_github_def commit_to_github_body_def setup_repo_def
      setup_repo_body_def create_journal_entry_def ensure_dir_def read_selection_def
      entry_is_current_def eval_example eval_paths eval_strings eval_io Let_def
      selection_loop.simps str_nat.simps prompt_text_def JOURNAL_PROMPTS_def empty_repo_def)

lemma example_init_fails_run:
  "setup_repo_body example_config example_env_init_fails example_world =
     (Inl (Exception ''git init failed''),
      example_world\<lparr>logged := [(INFO, ''Initializing git repository...'')],
                     trace := [GitInit ''/home/u/daily-journal'']\<rparr>)"
  by (simp add: setup_repo_body_def eval_io eval_example path_join_def)

lemma example_eof_run:
  "fst (commit_to_github_body example_config example_env_eof example_world_repo) =
     Inl (Exception ''EOF when reading a line'')"
  by (simp add: commit_to_github_body_def setup_repo_def
      setup_repo_body_def create_journal_entry_def ensure_dir_def read_selection_def
      entry_is_current_def eval_example eval_paths eval_strings eval_io Let_def
      selection_loop.simps str_nat.simps prompt_text_def EOFError_def empty_repo_def)

text \<open>
  Claim C6 as it was stated fails for an exception that is not an instance of
  \<open>Exception\<close>: when the user presses Ctrl-C at a prompt, the \<open>KeyboardInterrupt\<close>
  raised by \<open>input\<close> inside the commit pipeline leaves \<open>commit_to_github\<close>.
\<close>

theorem keyboard_interrupt_counterexample:
  "stdin example_env_interrupt = [Line ''1'', Raises KeyboardInterrupt] \<and>
   \<not> is_Exception KeyboardInterrupt \<and>
   fst (commit_to_github example_config example_env_interrupt example_world_repo) =
     Inl KeyboardInterrupt"
proof -
  have "stdin example_env_interrupt = [Line ''1'', Raises KeyboardInterrupt]"
    by (simp add: example_env_interrupt_def)
  then show ?thesis by (simp add: example_interrupt_run)
qed

text \<open>
  Claim C6, as amended. An exception that is an instance of \<open>Exception\<close>, raised inside
  the \<open>try\<close> block of \<open>setup_repo\<close> or of \<open>commit_to_github\<close>, is caught: the
  function adds one line to the log, at level error and with the message of the exception,
  and returns the failure result (\<open>None\<close>, respectively \<open>False\<close>) in the world the
  exception left. No such exception leaves either function.
\<close>

theorem exceptions_caught:
  "(setup_repo_body cfg e w = (Inl (Exception m), w1) \<longrightarrow>
      setup_repo cfg e w =
        (Inr None, w1\<lparr>logged := logged w1 @ [(ERROR, ''Error setting up repository: '' @ m)]\<rparr>)) \<and>
   (commit_to_github_body cfg e w = (Inl (Exception m), w2) \<longrightarrow>
      commit_to_github cfg e w =
        (Inr False, w2\<lparr>logged := logged w2 @ [(ERROR, ''Error committing to GitHub: '' @ m)]\<rparr>)) \<and>
   fst (setup_repo cfg e w) \<noteq> Inl (Exception x) \<and>
   fst (commit_to_github cfg e w) \<noteq> Inl (Exception x)"
proof (intro conjI impI)
  assume "setup_repo_body cfg e w = (Inl (Exception m), w1)"
  then have "seq (setup_repo_body cfg e) (\<lambda>r. ret (Some r)) w = (Inl (Exception m), w1)"
    by (simp add: seq_def)
  then show "setup_repo cfg e w =
        (Inr None, w1\<lparr>logged := logged w1 @ [(ERROR, ''Error setting up repository: '' @ m)]\<rparr>)"
    unfolding setup_repo_def
    by (simp add: try_except_caught seq_def logger_error_def ret_def)
next
  assume "commit_to_github_body cfg e w = (Inl (Exception m), w2)"
  then show "commit_to_github cfg e w =
        (Inr False, w2\<lparr>logged := logged w2 @ [(ERROR, ''Error committing to GitHub: '' @ m)]\<rparr>)"
    unfolding commit_to_github_def
    by (simp add: try_except_caught seq_def logger_error_def ret_def)
next
  show "fst (setup_repo cfg e w) \<noteq> Inl (Exception x)"
    unfolding setup_repo_def
    by (rule try_except_never_Exception) (simp add: seq_def logger_error_def ret_def)
next
  show "fst (commit_to_github cfg e w) \<noteq> Inl (Exception x)"
    unfolding commit_to_github_def
    by (rule try_except_never_Exception) (simp add: seq_def logger_error_def ret_def)
qed

theorem exceptions_caught_witness:
  "setup_repo_body example_config example_env_init_fails example_world =
     (Inl (Exception ''git init failed''),
      example_world\<lparr>logged := [(INFO, ''Initializing git repository...'')],
                     trace := [GitInit ''/home/u/daily-journal'']\<rparr>) \<and>
   setup_repo example_config example_env_init_fails example_world =
     (Inr None,
      example_world\<lparr>logged := [(INFO, ''Initializing git repository...''),
                                (ERROR, ''Error setting up repository: git init failed'')],
                     trace := [GitInit ''/home/u/daily-journal'']\<rparr>) \<and>
   fst (commit_to_github_body example_config example_env_eof example_world_repo) =
     Inl (Exception ''EOF when reading a line'') \<and>
   fst (commit_to_github example_config example_env_eof example_world_repo) = Inr False \<and>
   last (logged (snd (commit_to_github example_config example_env_eof example_world_repo))) =
     (ERROR, ''Error committing to GitHub: EOF when reading a line'')"
proof -
  let ?w2 = "snd (commit_to_github_body example_config example_env_eof example_world_repo)"
  have eof: "commit_to_github_body example_config example_env_eof example_world_repo =
      (Inl (Exception ''EOF when reading a line''), ?w2)"
    using example_eof_run by (simp add: prod_eq_iff)
  show ?thesis
    using example_init_fails_run example_eof_run
      exceptions_caught [of example_config example_env_init_fails example_world
        "''git init failed''"
        "example_world\<lparr>logged := [(INFO, ''Initializing git repository...'')],
                       trace := [GitInit ''/home/u/daily-journal'']\<rparr>"]
      exceptions_caught [of example_config example_env_eof example_world_repo
        "''EOF when reading a line''" _ ?w2] eof
    by (simp add: example_world_def)
qed

end
